theory Spec2Isabelle
  imports Complex_Main
begin

section \<open>Python values\<close>

text \<open>
  Values that travel through the pipeline are what \<^verbatim>\<open>json.loads\<close> produces: \<^verbatim>\<open>None\<close>,
  booleans, integers, floats, strings, lists and dicts. A dict is an association list; a
  key is looked up at its first binding (a dict built by Python has distinct keys).
  A float is the real number that the double holds; NaN and the infinities are outside
  this model.
\<close>

datatype jval =
    JNull
  | JBool bool
  | JInt int
  | JFloat real
  | JStr string
  | JList "jval list"
  | JObj "(string \<times> jval) list"

type_synonym pydict = "(string \<times> jval) list"

text \<open>The exception classes the modelled code can raise.\<close>

datatype pyerr =
    KeyError
  | AttributeError
  | TypeError
  | ValueError
  | JSONDecodeError
  | UnicodeDecodeError
  | BinasciiError
  | ZeroDivisionError
  | Neo4jError

text \<open>\<^verbatim>\<open>d.get(k, default)\<close> and \<^verbatim>\<open>d[k]\<close>.\<close>

definition dict_get :: "pydict \<Rightarrow> string \<Rightarrow> jval \<Rightarrow> jval" where
  "dict_get d k dflt = (case map_of d k of None \<Rightarrow> dflt | Some v \<Rightarrow> v)"

definition dict_index :: "pydict \<Rightarrow> string \<Rightarrow> pyerr + jval" where
  "dict_index d k = (case map_of d k of None \<Rightarrow> Inl KeyError | Some v \<Rightarrow> Inr v)"

text \<open>Python truthiness, as tested by \<^verbatim>\<open>if x:\<close>.\<close>

fun truthy :: "jval \<Rightarrow> bool" where
  "truthy JNull = False"
| "truthy (JBool b) = b"
| "truthy (JInt i) = (i \<noteq> 0)"
| "truthy (JFloat r) = (r \<noteq> 0)"
| "truthy (JStr s) = (s \<noteq> [])"
| "truthy (JList xs) = (xs \<noteq> [])"
| "truthy (JObj kvs) = (kvs \<noteq> [])"

text \<open>Sequencing of steps that may raise: the first exception ends the computation.\<close>

definition bind_err :: "pyerr + 'a \<Rightarrow> ('a \<Rightarrow> pyerr + 'b) \<Rightarrow> pyerr + 'b" where
  "bind_err r f = (case r of Inl e \<Rightarrow> Inl e | Inr x \<Rightarrow> f x)"


section \<open>Double arithmetic\<close>

text \<open>
  Python's \<^verbatim>\<open>float\<close> is the IEEE 754 binary64 format: 53 significant bits, the exponent of
  a normal number at least -1022, and below that a fixed spacing of 2 to the power -1074.
  Every operation returns the exact result rounded to the nearest double, a tie going to
  the neighbour with the even significand. Results beyond the largest double (about
  1.8e308), where Python gives \<^verbatim>\<open>inf\<close> or raises \<^verbatim>\<open>OverflowError\<close>, are outside the model.
\<close>

definition round_half_even :: "real \<Rightarrow> int" where
  "round_half_even x =
     (let f = \<lfloor>x\<rfloor>; d = x - of_int f
      in if d < 1/2 then f
         else if 1/2 < d then f + 1
         else if even f then f else f + 1)"

definition pow2 :: "int \<Rightarrow> real" where
  "pow2 e = (if 0 \<le> e then 2 ^ nat e else 1 / 2 ^ nat (- e))"

text \<open>The position of the leading bit of a positive integer.\<close>

fun floor_log2 :: "nat \<Rightarrow> nat" where
  "floor_log2 n = (if n < 2 then 0 else Suc (floor_log2 (n div 2)))"

declare floor_log2.simps [simp del]

text \<open>The exponent \<open>e\<close> of a number other than 0: \<open>pow2 e \<le> \<bar>x\<bar>\<close> and \<open>\<bar>x\<bar> < pow2 (e + 1)\<close>.\<close>

definition binary_exponent :: "real \<Rightarrow> int" where
  "binary_exponent x =
     (let a = \<bar>x\<bar>
      in if 1 \<le> a then int (floor_log2 (nat \<lfloor>a\<rfloor>))
         else (let k = int (floor_log2 (nat \<lfloor>1 / a\<rfloor>))
               in if a = pow2 (- k) then - k else - k - 1))"

text \<open>The double nearest to a real number.\<close>

definition to_double :: "real \<Rightarrow> real" where
  "to_double x =
     (if x = 0 then 0
      else let ulp = pow2 (max (binary_exponent x) (- 1022) - 52)
           in of_int (round_half_even (x / ulp)) * ulp)"

text \<open>\<^verbatim>\<open>x + y\<close>, \<^verbatim>\<open>x - y\<close>, \<^verbatim>\<open>x * y\<close> and \<^verbatim>\<open>x / y\<close> on floats; true division raises on a zero divisor.\<close>

definition float_add :: "real \<Rightarrow> real \<Rightarrow> real" where
  "float_add x y = to_double (x + y)"

definition float_sub :: "real \<Rightarrow> real \<Rightarrow> real" where
  "float_sub x y = to_double (x - y)"

definition float_mul :: "real \<Rightarrow> real \<Rightarrow> real" where
  "float_mul x y = to_double (x * y)"

definition float_truediv :: "real \<Rightarrow> real \<Rightarrow> pyerr + real" where
  "float_truediv x y = (if y = 0 then Inl ZeroDivisionError else Inr (to_double (x / y)))"

text \<open>
  \<^verbatim>\<open>float(n)\<close>, which is what an \<^verbatim>\<open>int\<close> operand of a float operation becomes, and \<^verbatim>\<open>a / b\<close> on
  two \<^verbatim>\<open>int\<close>s, which is the quotient rounded once.
\<close>

definition int_to_float :: "int \<Rightarrow> real" where
  "int_to_float n = to_double (of_int n)"

definition int_truediv :: "int \<Rightarrow> int \<Rightarrow> pyerr + real" where
  "int_truediv a b = (if b = 0 then Inl ZeroDivisionError else Inr (to_double (of_int a / of_int b)))"

text \<open>
  \<^verbatim>\<open>round(x, n)\<close> on a float, for the small \<open>n\<close> that the code uses (2 and 4): the exact
  value of \<open>x\<close> is rounded to \<open>n\<close> decimals, a tie going to the even neighbour, and the
  decimal is converted to the nearest double.
\<close>

definition py_round :: "real \<Rightarrow> nat \<Rightarrow> real" where
  "py_round x n = to_double (of_int (round_half_even (x * 10 ^ n)) / 10 ^ n)"


section \<open>Publisher metrics (healthcare_publisher.py)\<close>

text \<open>
  \<^verbatim>\<open>HealthcarePublisherMetrics\<close>: the counters start at 0 and are only incremented, so they
  are natural numbers. The lock serialises the updates; the model is sequential.
\<close>

record HealthcarePublisherMetrics =
  start_time :: "real option"
  end_time :: "real option"
  messages_sent :: nat
  messages_failed :: nat
  total_bytes_sent :: nat
  batch_times :: "real list"

definition metrics_init :: HealthcarePublisherMetrics where
  "metrics_init =
     \<lparr>start_time = None, end_time = None, messages_sent = 0, messages_failed = 0,
      total_bytes_sent = 0, batch_times = []\<rparr>"

definition start_publishing :: "real \<Rightarrow> HealthcarePublisherMetrics \<Rightarrow> HealthcarePublisherMetrics" where
  "start_publishing now m = m\<lparr>start_time := Some now\<rparr>"

definition record_success :: "nat \<Rightarrow> HealthcarePublisherMetrics \<Rightarrow> HealthcarePublisherMetrics" where
  "record_success message_size m =
     m\<lparr>messages_sent := messages_sent m + 1,
       total_bytes_sent := total_bytes_sent m + message_size\<rparr>"

definition record_failure :: "HealthcarePublisherMetrics \<Rightarrow> HealthcarePublisherMetrics" where
  "record_failure m = m\<lparr>messages_failed := messages_failed m + 1\<rparr>"

definition record_batch_time :: "real \<Rightarrow> HealthcarePublisherMetrics \<Rightarrow> HealthcarePublisherMetrics" where
  "record_batch_time batch_time m = m\<lparr>batch_times := batch_times m @ [batch_time]\<rparr>"

definition finish_publishing :: "real \<Rightarrow> HealthcarePublisherMetrics \<Rightarrow> HealthcarePublisherMetrics" where
  "finish_publishing now m = m\<lparr>end_time := Some now\<rparr>"

text \<open>Truthiness of an optional float: \<^verbatim>\<open>None\<close> and \<^verbatim>\<open>0.0\<close> are false.\<close>

fun time_set :: "real option \<Rightarrow> bool" where
  "time_set None = False"
| "time_set (Some t) = (t \<noteq> 0)"

fun time_or :: "real option \<Rightarrow> real \<Rightarrow> real" where
  "time_or None now = now"
| "time_or (Some t) now = (if t \<noteq> 0 then t else now)"

text \<open>
  \<^verbatim>\<open>get_stats\<close>; \<open>now\<close> is the reading of \<^verbatim>\<open>time.time()\<close> and \<open>fsum\<close> is the built-in
  \<^verbatim>\<open>sum\<close> on a list of floats, taken as given (CPython adds from left to right up to
  version 3.11 and compensates the rounding errors from 3.12 on). The result is the dict
  the method returns, \<^verbatim>\<open>{}\<close> when publishing never started. The literal \<^verbatim>\<open>0.01\<close> is the
  double nearest to \<open>1/100\<close>.
\<close>

definition get_stats ::
  "(real list \<Rightarrow> real) \<Rightarrow> real \<Rightarrow> HealthcarePublisherMetrics \<Rightarrow> pyerr + pydict" where
  "get_stats fsum now m =
     (if \<not> time_set (start_time m) then Inr []
      else
        let duration = float_sub (time_or (end_time m) now) (time_or (start_time m) 0);
            total_messages = messages_sent m + messages_failed m
        in
        bind_err (int_truediv (int (messages_sent m)) (int (max total_messages 1))) (\<lambda>rate.
        bind_err (float_truediv (int_to_float (int (messages_sent m)))
                    (max duration (to_double (1/100)))) (\<lambda>msg_per_sec.
        bind_err (int_truediv (int (total_bytes_sent m)) (int (max (messages_sent m) 1))) (\<lambda>avg_size.
        bind_err (int_truediv (int (total_bytes_sent m)) (1024 * 1024)) (\<lambda>mb.
        bind_err (float_truediv mb (max duration (to_double (1/100)))) (\<lambda>mb_per_sec.
        bind_err (if batch_times m \<noteq> []
                  then bind_err (float_truediv (fsum (batch_times m))
                                   (int_to_float (int (max (length (batch_times m)) 1))))
                         (\<lambda>avg. Inr (JFloat (py_round (float_mul avg 1000) 2)))
                  else Inr (JInt 0)) (\<lambda>avg_batch_time_ms.
        Inr [(''duration_seconds'', JFloat (py_round duration 2)),
             (''total_messages'', JInt (int total_messages)),
             (''messages_sent'', JInt (int (messages_sent m))),
             (''messages_failed'', JInt (int (messages_failed m))),
             (''success_rate_percent'', JFloat (py_round (float_mul rate 100) 2)),
             (''throughput_msg_per_sec'', JFloat (py_round msg_per_sec 2)),
             (''total_bytes_sent'', JInt (int (total_bytes_sent m))),
             (''avg_message_size'', JFloat (py_round avg_size 2)),
             (''throughput_mb_per_sec'', JFloat (py_round mb_per_sec 4)),
             (''avg_batch_time_ms'', avg_batch_time_ms)])))))))"


section \<open>Batch publishing (healthcare_publisher.py)\<close>

text \<open>
  What submitting a message (\<^verbatim>\<open>json.dumps\<close>, \<^verbatim>\<open>encode\<close>, \<^verbatim>\<open>publisher.publish\<close>) and the
  later \<^verbatim>\<open>future.result(timeout=10)\<close> do: the submission itself raises, or it returns a
  future that is acknowledged, or a future whose result raises (a publish error or the
  timeout).
\<close>

datatype publish_outcome = PublishRaises | Acked | ResultRaises

text \<open>
  The surroundings of the publisher: the transport's behaviour for the message at a given
  position of a given batch, the length of the encoded message, the clock readings
  (\<open>batch_elapsed\<close> is \<^verbatim>\<open>time.time() - batch_start\<close> as computed), and the built-in \<^verbatim>\<open>sum\<close>
  on a list of floats.
\<close>

record pub_env =
  publish :: "nat \<Rightarrow> nat \<Rightarrow> pydict \<Rightarrow> publish_outcome"
  data_size :: "pydict \<Rightarrow> nat"
  batch_elapsed :: "nat \<Rightarrow> real"
  t_start :: real
  t_end :: real
  float_sum :: "real list \<Rightarrow> real"

text \<open>
  The submission loop of \<^verbatim>\<open>publish_message_batch\<close>: \<open>None\<close> when a \<^verbatim>\<open>publish\<close> call
  raises, else the futures with the message sizes.
\<close>

fun submit_all :: "pub_env \<Rightarrow> nat \<Rightarrow> nat \<Rightarrow> pydict list \<Rightarrow> (publish_outcome \<times> nat) list option" where
  "submit_all env batch_id i [] = Some []"
| "submit_all env batch_id i (message # messages) =
     (case publish env batch_id i message of
        PublishRaises \<Rightarrow> None
      | out \<Rightarrow>
          (case submit_all env batch_id (Suc i) messages of
             None \<Rightarrow> None
           | Some futures \<Rightarrow> Some ((out, data_size env message) # futures)))"

text \<open>The waiting loop: every future is tallied on its own.\<close>

fun wait_all ::
  "(publish_outcome \<times> nat) list \<Rightarrow> nat \<times> nat \<times> HealthcarePublisherMetrics
     \<Rightarrow> nat \<times> nat \<times> HealthcarePublisherMetrics" where
  "wait_all [] acc = acc"
| "wait_all ((out, message_size) # futures) (batch_success, batch_failed, metrics) =
     (if out = Acked
      then wait_all futures (batch_success + 1, batch_failed, record_success message_size metrics)
      else wait_all futures (batch_success, batch_failed + 1, record_failure metrics))"

definition publish_message_batch ::
  "pub_env \<Rightarrow> pydict list \<Rightarrow> nat \<Rightarrow> HealthcarePublisherMetrics
     \<Rightarrow> (nat \<times> nat) \<times> HealthcarePublisherMetrics" where
  "publish_message_batch env messages batch_id metrics =
     (case submit_all env batch_id 0 messages of
        None \<Rightarrow> ((0, length messages), record_failure metrics)
      | Some futures \<Rightarrow>
          (case wait_all futures (0, 0, metrics) of
             (batch_success, batch_failed, metrics') \<Rightarrow>
               ((batch_success, batch_failed),
                record_batch_time (batch_elapsed env batch_id) metrics')))"

text \<open>\<^verbatim>\<open>range(i, n, k)\<close> for a positive step.\<close>

function range_step :: "nat \<Rightarrow> nat \<Rightarrow> nat \<Rightarrow> nat list" where
  "range_step i n k = (if 0 < k \<and> i < n then i # range_step (i + k) n k else [])"
  by pat_completeness auto
termination
  by (relation "measure (\<lambda>(i, n, k). n - i)") auto

declare range_step.simps [simp del]

text \<open>
  \<^verbatim>\<open>[data[i:i + batch_size] for i in range(0, len(data), batch_size)]\<close>: a step of 0
  raises \<^verbatim>\<open>ValueError\<close>, a negative step gives the empty range.
\<close>

definition split_batches :: "'a list \<Rightarrow> int \<Rightarrow> pyerr + 'a list list" where
  "split_batches healthcare_data batch_size =
     (if batch_size = 0 then Inl ValueError
      else if batch_size < 0 then Inr []
      else Inr (map (\<lambda>i. take (nat batch_size) (drop i healthcare_data))
                  (range_step 0 (length healthcare_data) (nat batch_size))))"

text \<open>
  The loop over the batches. The pool runs them concurrently and \<^verbatim>\<open>as_completed\<close> yields
  them in any order; the tallies are sums, so the model runs the batches in list order.
  \<^verbatim>\<open>publish_message_batch\<close> catches every exception, so the branch for a batch future that
  raises is never taken.
\<close>

fun publish_batches ::
  "pub_env \<Rightarrow> nat \<Rightarrow> pydict list list \<Rightarrow> nat \<times> nat \<times> HealthcarePublisherMetrics
     \<Rightarrow> nat \<times> nat \<times> HealthcarePublisherMetrics" where
  "publish_batches env i [] acc = acc"
| "publish_batches env i (batch # batches) (total_success, total_failed, metrics) =
     (case publish_message_batch env batch i metrics of
        ((success, failed), metrics') \<Rightarrow>
          publish_batches env (Suc i) batches
            (total_success + success, total_failed + failed, metrics'))"

text \<open>
  \<^verbatim>\<open>publish_healthcare_data_high_performance\<close>, from the generated dataset on. The final
  report indexes the statistics, which raises \<^verbatim>\<open>KeyError\<close> on the empty dict.
\<close>

definition publish_run ::
  "pub_env \<Rightarrow> pydict list \<Rightarrow> int \<Rightarrow> pyerr + (nat \<times> nat \<times> HealthcarePublisherMetrics)" where
  "publish_run env healthcare_data batch_size =
     (case split_batches healthcare_data batch_size of
        Inl e \<Rightarrow> Inl e
      | Inr batches \<Rightarrow>
          (case publish_batches env 0 batches (0, 0, start_publishing (t_start env) metrics_init) of
             (total_success, total_failed, metrics) \<Rightarrow>
               Inr (total_success, total_failed, finish_publishing (t_end env) metrics)))"

definition publish_healthcare_data_high_performance ::
  "pub_env \<Rightarrow> pydict list \<Rightarrow> int \<Rightarrow> pyerr + pydict" where
  "publish_healthcare_data_high_performance env healthcare_data batch_size =
     bind_err (publish_run env healthcare_data batch_size) (\<lambda>(total_success, total_failed, metrics).
     bind_err (get_stats (float_sum env) (t_end env) metrics) (\<lambda>final_stats.
       if final_stats = [] then Inl KeyError else Inr final_stats))"


section \<open>Strings\<close>

text \<open>
  \<^verbatim>\<open>str.lower()\<close> and \<^verbatim>\<open>str.title()\<close> on ASCII text; characters beyond ASCII are left as
  they are.
\<close>

definition is_upper :: "char \<Rightarrow> bool" where
  "is_upper c = (let n = of_char c :: nat in 65 \<le> n \<and> n \<le> 90)"

definition is_lower :: "char \<Rightarrow> bool" where
  "is_lower c = (let n = of_char c :: nat in 97 \<le> n \<and> n \<le> 122)"

definition lower_char :: "char \<Rightarrow> char" where
  "lower_char c = (if is_upper c then char_of (of_char c + (32::nat)) else c)"

definition upper_char :: "char \<Rightarrow> char" where
  "upper_char c = (if is_lower c then char_of (of_char c - (32::nat)) else c)"

definition py_lower :: "string \<Rightarrow> string" where
  "py_lower s = map lower_char s"

fun title_from :: "bool \<Rightarrow> string \<Rightarrow> string" where
  "title_from previous_is_cased [] = []"
| "title_from previous_is_cased (c # cs) =
     (if is_upper c \<or> is_lower c
      then (if previous_is_cased then lower_char c else upper_char c) # title_from True cs
      else c # title_from False cs)"

definition py_title :: "string \<Rightarrow> string" where
  "py_title s = title_from False s"


section \<open>The graph store\<close>

text \<open>
  The part of Neo4j that the service's Cypher statements use. A node has one label and a
  property map and is identified by its position in the node list (nodes are never
  deleted); a relationship joins two positions. A property holds a boolean, a number, a
  string or a list of such values of one kind; \<^verbatim>\<open>null\<close> stands for no property. Integers
  beyond 64 bits, which the driver refuses to send, are outside the model.
\<close>

type_synonym props = "string \<rightharpoonup> jval"

record gnode =
  nlabel :: string
  nprops :: props

record grel =
  rsrc :: nat
  rtype :: string
  rprops :: props
  rdst :: nat

record graph =
  nodes :: "gnode list"
  rels :: "grel list"

definition empty_graph :: graph where
  "empty_graph = \<lparr>nodes = [], rels = []\<rparr>"

fun is_prim :: "jval \<Rightarrow> bool" where
  "is_prim (JBool b) = True"
| "is_prim (JInt i) = True"
| "is_prim (JFloat r) = True"
| "is_prim (JStr s) = True"
| "is_prim v = False"

fun same_kind :: "jval \<Rightarrow> jval \<Rightarrow> bool" where
  "same_kind (JBool a) (JBool b) = True"
| "same_kind (JInt a) (JInt b) = True"
| "same_kind (JFloat a) (JFloat b) = True"
| "same_kind (JStr a) (JStr b) = True"
| "same_kind v w = False"

text \<open>Values that can be stored as a property.\<close>

fun storable :: "jval \<Rightarrow> bool" where
  "storable (JList []) = True"
| "storable (JList (x # xs)) = (is_prim x \<and> list_all (same_kind x) xs)"
| "storable v = is_prim v"

text \<open>A statement parameter that is written to a property: a storable value or \<^verbatim>\<open>null\<close>.\<close>

definition param_ok :: "jval \<Rightarrow> bool" where
  "param_ok v = (v = JNull \<or> storable v)"

text \<open>
  Cypher's \<open>=\<close> where it yields true: numbers compare by value, values of different
  kinds and \<^verbatim>\<open>null\<close> are never equal.
\<close>

fun prim_eq :: "jval \<Rightarrow> jval \<Rightarrow> bool" where
  "prim_eq (JBool a) (JBool b) = (a = b)"
| "prim_eq (JInt a) (JInt b) = (a = b)"
| "prim_eq (JInt a) (JFloat b) = (real_of_int a = b)"
| "prim_eq (JFloat a) (JInt b) = (a = real_of_int b)"
| "prim_eq (JFloat a) (JFloat b) = (a = b)"
| "prim_eq (JStr a) (JStr b) = (a = b)"
| "prim_eq v w = False"

fun cy_eq :: "jval \<Rightarrow> jval \<Rightarrow> bool" where
  "cy_eq (JList xs) (JList ys) = list_all2 prim_eq xs ys"
| "cy_eq (JList xs) w = False"
| "cy_eq v (JList ys) = False"
| "cy_eq v w = prim_eq v w"

text \<open>\<^verbatim>\<open>SET n.k = $v\<close>: setting a property to \<^verbatim>\<open>null\<close> removes it.\<close>

definition set_prop :: "string \<times> jval \<Rightarrow> props \<Rightarrow> props" where
  "set_prop kv p = (if snd kv = JNull then p(fst kv := None) else p(fst kv \<mapsto> snd kv))"

definition set_props :: "(string \<times> jval) list \<Rightarrow> props \<Rightarrow> props" where
  "set_props kvs p = fold set_prop kvs p"

text \<open>The node pattern \<^verbatim>\<open>(n:Label {id: $id})\<close>.\<close>

definition node_has :: "string \<Rightarrow> jval \<Rightarrow> gnode \<Rightarrow> bool" where
  "node_has l v n =
     (nlabel n = l \<and> (case nprops n ''id'' of None \<Rightarrow> False | Some w \<Rightarrow> cy_eq w v))"

definition match_nodes :: "graph \<Rightarrow> string \<Rightarrow> jval \<Rightarrow> nat list" where
  "match_nodes g l v = filter (\<lambda>i. node_has l v (nodes g ! i)) [0..<length (nodes g)]"

text \<open>\<^verbatim>\<open>CREATE (n:Label {k1: $v1, ...})\<close>: always a new node.\<close>

definition create_node :: "string \<Rightarrow> (string \<times> jval) list \<Rightarrow> graph \<Rightarrow> pyerr + graph" where
  "create_node l kvs g =
     (if list_all (\<lambda>kv. param_ok (snd kv)) kvs
      then Inr (g\<lparr>nodes := nodes g @ [\<lparr>nlabel = l, nprops = set_props kvs Map.empty\<rparr>]\<rparr>)
      else Inl Neo4jError)"

text \<open>
  \<^verbatim>\<open>MERGE (n:Label {id: $id}) SET n.k1 = $v1, ...\<close>: the nodes that match are updated; if
  there is none, one is created first. Merging on \<^verbatim>\<open>null\<close> is an error.
\<close>

definition merge_node :: "string \<Rightarrow> jval \<Rightarrow> (string \<times> jval) list \<Rightarrow> graph \<Rightarrow> pyerr + graph" where
  "merge_node l v kvs g =
     (if \<not> storable v \<or> \<not> list_all (\<lambda>kv. param_ok (snd kv)) kvs then Inl Neo4jError
      else if list_ex (node_has l v) (nodes g)
      then Inr (g\<lparr>nodes := map (\<lambda>n. if node_has l v n
                                      then n\<lparr>nprops := set_props kvs (nprops n)\<rparr> else n)
                               (nodes g)\<rparr>)
      else Inr (g\<lparr>nodes := nodes g
                   @ [\<lparr>nlabel = l, nprops = set_props kvs [''id'' \<mapsto> v]\<rparr>]\<rparr>))"

text \<open>
  \<^verbatim>\<open>MERGE (a)-[:T {k1: $v1, ...}]->(b)\<close> for every row \<open>(a, b)\<close> of the preceding matches:
  the relationship is created unless one of that type with these property values joins the
  two nodes already. No row, no write: a reference to a node that is not there is a no-op.
\<close>

definition rel_has :: "nat \<Rightarrow> string \<Rightarrow> (string \<times> jval) list \<Rightarrow> nat \<Rightarrow> grel \<Rightarrow> bool" where
  "rel_has a t kvs b r =
     (rsrc r = a \<and> rdst r = b \<and> rtype r = t \<and>
      list_all (\<lambda>kv. case rprops r (fst kv) of None \<Rightarrow> False | Some w \<Rightarrow> cy_eq w (snd kv)) kvs)"

fun merge_rels :: "(nat \<times> nat) list \<Rightarrow> string \<Rightarrow> (string \<times> jval) list \<Rightarrow> graph \<Rightarrow> pyerr + graph" where
  "merge_rels [] t kvs g = Inr g"
| "merge_rels ((a, b) # rows) t kvs g =
     (if \<not> list_all (\<lambda>kv. storable (snd kv)) kvs then Inl Neo4jError
      else merge_rels rows t kvs
             (if list_ex (rel_has a t kvs b) (rels g) then g
              else g\<lparr>rels := rels g @ [\<lparr>rsrc = a, rtype = t, rprops = map_of kvs, rdst = b\<rparr>]\<rparr>))"

text \<open>The rows of two consecutive \<^verbatim>\<open>MATCH\<close> clauses.\<close>

definition match_rows :: "graph \<Rightarrow> string \<Rightarrow> jval \<Rightarrow> string \<Rightarrow> jval \<Rightarrow> (nat \<times> nat) list" where
  "match_rows g la va lb vb = List.product (match_nodes g la va) (match_nodes g lb vb)"


section \<open>Graph write handlers (healthcare_neo4j_service.py)\<close>

text \<open>
  What a handler returns: the dict with the keys \<^verbatim>\<open>entity_id\<close>, \<^verbatim>\<open>type\<close> and
  \<^verbatim>\<open>relationships_created\<close>.
\<close>

record write_result =
  entity_id :: jval
  entity_type :: string
  relationships_created :: nat

text \<open>
  The step every handler repeats for a foreign id: \<^verbatim>\<open>if ref: tx.run(...);
  relationships_created += 1\<close>. The count goes up when the statement was run, whether or
  not it matched anything.
\<close>

definition link_if ::
  "jval \<Rightarrow> (graph \<Rightarrow> pyerr + graph) \<Rightarrow> graph \<times> nat \<Rightarrow> pyerr + (graph \<times> nat)" where
  "link_if ref run_query st =
     (case st of (tx, created) \<Rightarrow>
        if truthy ref
        then bind_err (run_query tx) (\<lambda>tx'. Inr (tx', created + 1))
        else Inr (tx, created))"

definition hospital_params :: "string \<Rightarrow> pydict \<Rightarrow> (string \<times> jval) list" where
  "hospital_params timestamp data =
     [(''name'', dict_get data ''name'' (JStr [])),
      (''location'', dict_get data ''location'' (JStr [])),
      (''hospital_type'', dict_get data ''hospital_type'' (JStr [])),
      (''bed_count'', dict_get data ''bed_count'' (JInt 0)),
      (''trauma_center'', dict_get data ''trauma_center'' (JBool False)),
      (''teaching_hospital'', dict_get data ''teaching_hospital'' (JBool False)),
      (''updated_at'', JStr timestamp)]"

definition create_hospital :: "string \<Rightarrow> graph \<Rightarrow> pydict \<Rightarrow> pyerr + (write_result \<times> graph)" where
  "create_hospital timestamp tx data =
     bind_err (dict_index data ''id'') (\<lambda>eid.
     bind_err (merge_node ''Hospital'' eid (hospital_params timestamp data) tx) (\<lambda>tx'.
       Inr (\<lparr>entity_id = eid, entity_type = ''Hospital'', relationships_created = 0\<rparr>, tx')))"

definition doctor_params :: "string \<Rightarrow> pydict \<Rightarrow> (string \<times> jval) list" where
  "doctor_params timestamp data =
     [(''name'', dict_get data ''name'' (JStr [])),
      (''specialty'', dict_get data ''specialty'' (JStr [])),
      (''license_number'', dict_get data ''license_number'' (JStr [])),
      (''years_experience'', dict_get data ''years_experience'' (JInt 0)),
      (''updated_at'', JStr timestamp)]"

definition create_doctor :: "string \<Rightarrow> graph \<Rightarrow> pydict \<Rightarrow> pyerr + (write_result \<times> graph)" where
  "create_doctor timestamp tx data =
     bind_err (dict_index data ''id'') (\<lambda>eid.
     bind_err (merge_node ''Doctor'' eid (doctor_params timestamp data) tx) (\<lambda>tx1.
     bind_err (link_if (dict_get data ''hospital_id'' JNull)
                 (\<lambda>tx. merge_rels (match_rows tx ''Doctor'' eid
                                      ''Hospital'' (dict_get data ''hospital_id'' JNull))
                         ''WORKS_AT'' [] tx)
                 (tx1, 0)) (\<lambda>st2.
       Inr (\<lparr>entity_id = eid, entity_type = ''Doctor'',
             relationships_created = snd st2\<rparr>, fst st2))))"

definition patient_params :: "string \<Rightarrow> pydict \<Rightarrow> (string \<times> jval) list" where
  "patient_params timestamp data =
     [(''name'', dict_get data ''name'' (JStr [])),
      (''mrn'', dict_get data ''mrn'' (JStr [])),
      (''date_of_birth'', dict_get data ''date_of_birth'' (JStr [])),
      (''age'', dict_get data ''age'' (JInt 0)),
      (''gender'', dict_get data ''gender'' (JStr [])),
      (''phone'', dict_get data ''phone'' (JStr [])),
      (''email'', dict_get data ''email'' (JStr [])),
      (''updated_at'', JStr timestamp)]"

definition create_patient :: "string \<Rightarrow> graph \<Rightarrow> pydict \<Rightarrow> pyerr + (write_result \<times> graph)" where
  "create_patient timestamp tx data =
     bind_err (dict_index data ''id'') (\<lambda>eid.
     bind_err (merge_node ''Patient'' eid (patient_params timestamp data) tx) (\<lambda>tx1.
     bind_err (link_if (dict_get data ''primary_care_doctor'' JNull)
                 (\<lambda>tx. merge_rels (match_rows tx ''Patient'' eid
                                      ''Doctor'' (dict_get data ''primary_care_doctor'' JNull))
                         ''HAS_PRIMARY_CARE_DOCTOR'' [] tx)
                 (tx1, 0)) (\<lambda>st2.
       Inr (\<lparr>entity_id = eid, entity_type = ''Patient'',
             relationships_created = snd st2\<rparr>, fst st2))))"

definition diagnosis_params :: "string \<Rightarrow> jval \<Rightarrow> pydict \<Rightarrow> (string \<times> jval) list" where
  "diagnosis_params timestamp eid data =
     [(''id'', eid),
      (''icd10_code'', dict_get data ''icd10_code'' (JStr [])),
      (''description'', dict_get data ''description'' (JStr [])),
      (''severity'', dict_get data ''severity'' (JStr [])),
      (''diagnosed_date'', dict_get data ''diagnosed_date'' (JStr [])),
      (''status'', dict_get data ''status'' (JStr [])),
      (''created_at'', JStr timestamp)]"

definition create_diagnosis :: "string \<Rightarrow> graph \<Rightarrow> pydict \<Rightarrow> pyerr + (write_result \<times> graph)" where
  "create_diagnosis timestamp tx data =
     bind_err (dict_index data ''id'') (\<lambda>eid.
     bind_err (create_node ''Diagnosis'' (diagnosis_params timestamp eid data) tx) (\<lambda>tx1.
     bind_err (link_if (dict_get data ''patient_id'' JNull)
                 (\<lambda>tx. merge_rels (match_rows tx ''Patient'' (dict_get data ''patient_id'' JNull)
                                      ''Diagnosis'' eid)
                         ''HAS_DIAGNOSIS'' [] tx)
                 (tx1, 0)) (\<lambda>st2.
     bind_err (link_if (dict_get data ''doctor_id'' JNull)
                 (\<lambda>tx. merge_rels (match_rows tx ''Doctor'' (dict_get data ''doctor_id'' JNull)
                                      ''Diagnosis'' eid)
                         ''DIAGNOSED'' [] tx)
                 st2) (\<lambda>st3.
       Inr (\<lparr>entity_id = eid, entity_type = ''Diagnosis'',
             relationships_created = snd st3\<rparr>, fst st3)))))"

definition medication_params :: "string \<Rightarrow> jval \<Rightarrow> pydict \<Rightarrow> (string \<times> jval) list" where
  "medication_params timestamp eid data =
     [(''id'', eid),
      (''medication_name'', dict_get data ''medication_name'' (JStr [])),
      (''dosage'', dict_get data ''dosage'' (JStr [])),
      (''frequency'', dict_get data ''frequency'' (JStr [])),
      (''indication'', dict_get data ''indication'' (JStr [])),
      (''prescribed_date'', dict_get data ''prescribed_date'' (JStr [])),
      (''quantity'', dict_get data ''quantity'' (JInt 0)),
      (''refills'', dict_get data ''refills'' (JInt 0)),
      (''status'', dict_get data ''status'' (JStr [])),
      (''created_at'', JStr timestamp)]"

definition create_medication :: "string \<Rightarrow> graph \<Rightarrow> pydict \<Rightarrow> pyerr + (write_result \<times> graph)" where
  "create_medication timestamp tx data =
     bind_err (dict_index data ''id'') (\<lambda>eid.
     bind_err (create_node ''Medication'' (medication_params timestamp eid data) tx) (\<lambda>tx1.
     bind_err (link_if (dict_get data ''patient_id'' JNull)
                 (\<lambda>tx. merge_rels (match_rows tx ''Patient'' (dict_get data ''patient_id'' JNull)
                                      ''Medication'' eid)
                         ''PRESCRIBED''
                         [(''prescribed_date'', dict_get data ''prescribed_date'' (JStr []))] tx)
                 (tx1, 0)) (\<lambda>st2.
     bind_err (link_if (dict_get data ''prescribing_doctor_id'' JNull)
                 (\<lambda>tx. merge_rels (match_rows tx ''Doctor''
                                      (dict_get data ''prescribing_doctor_id'' JNull)
                                      ''Medication'' eid)
                         ''PRESCRIBED''
                         [(''date'', dict_get data ''prescribed_date'' (JStr []))] tx)
                 st2) (\<lambda>st3.
       Inr (\<lparr>entity_id = eid, entity_type = ''Medication'',
             relationships_created = snd st3\<rparr>, fst st3)))))"

definition procedure_params :: "string \<Rightarrow> jval \<Rightarrow> pydict \<Rightarrow> (string \<times> jval) list" where
  "procedure_params timestamp eid data =
     [(''id'', eid),
      (''cpt_code'', dict_get data ''cpt_code'' (JStr [])),
      (''procedure_name'', dict_get data ''procedure_name'' (JStr [])),
      (''procedure_type'', dict_get data ''procedure_type'' (JStr [])),
      (''procedure_date'', dict_get data ''procedure_date'' (JStr [])),
      (''duration_minutes'', dict_get data ''duration_minutes'' (JInt 0)),
      (''status'', dict_get data ''status'' (JStr [])),
      (''cost'', dict_get data ''cost'' (JFloat 0)),
      (''created_at'', JStr timestamp)]"

definition create_procedure :: "string \<Rightarrow> graph \<Rightarrow> pydict \<Rightarrow> pyerr + (write_result \<times> graph)" where
  "create_procedure timestamp tx data =
     bind_err (dict_index data ''id'') (\<lambda>eid.
     bind_err (create_node ''Procedure'' (procedure_params timestamp eid data) tx) (\<lambda>tx1.
     bind_err (link_if (dict_get data ''patient_id'' JNull)
                 (\<lambda>tx. merge_rels (match_rows tx ''Patient'' (dict_get data ''patient_id'' JNull)
                                      ''Procedure'' eid)
                         ''UNDERWENT''
                         [(''date'', dict_get data ''procedure_date'' (JStr [])),
                          (''cost'', dict_get data ''cost'' (JFloat 0))] tx)
                 (tx1, 0)) (\<lambda>st2.
     bind_err (link_if (dict_get data ''performing_doctor_id'' JNull)
                 (\<lambda>tx. merge_rels (match_rows tx ''Doctor''
                                      (dict_get data ''performing_doctor_id'' JNull)
                                      ''Procedure'' eid)
                         ''PERFORMED''
                         [(''date'', dict_get data ''procedure_date'' (JStr []))] tx)
                 st2) (\<lambda>st3.
     bind_err (link_if (dict_get data ''hospital_id'' JNull)
                 (\<lambda>tx. merge_rels (map prod.swap
                                      (match_rows tx ''Hospital'' (dict_get data ''hospital_id'' JNull)
                                         ''Procedure'' eid))
                         ''PERFORMED_AT'' [] tx)
                 st3) (\<lambda>st4.
       Inr (\<lparr>entity_id = eid, entity_type = ''Procedure'',
             relationships_created = snd st4\<rparr>, fst st4))))))"

text \<open>
  The fallback handler. The label is spliced into the statement text; the model covers
  labels that are plain identifiers and treats any other text as a malformed statement.
  \<^verbatim>\<open>data.items()\<close> yields each key once.
\<close>

definition is_identifier :: "string \<Rightarrow> bool" where
  "is_identifier s =
     (case s of
        [] \<Rightarrow> False
      | c # cs \<Rightarrow>
          (is_upper c \<or> is_lower c \<or> c = CHR ''_'') \<and>
          list_all (\<lambda>d. is_upper d \<or> is_lower d \<or> d = CHR ''_''
                          \<or> (let n = of_char d :: nat in 48 \<le> n \<and> n \<le> 57)) cs)"

fun dict_items :: "pydict \<Rightarrow> (string \<times> jval) list" where
  "dict_items [] = []"
| "dict_items (kv # d) = kv # dict_items (filter (\<lambda>kv'. fst kv' \<noteq> fst kv) d)"

definition create_generic_entity ::
  "string \<Rightarrow> string \<Rightarrow> graph \<Rightarrow> pydict \<Rightarrow> pyerr + (write_result \<times> graph)" where
  "create_generic_entity timestamp uuid tx data =
     bind_err (case dict_get data ''type'' (JStr ''Unknown'') of
                 JStr t \<Rightarrow> Inr (py_title t)
               | _ \<Rightarrow> Inl AttributeError) (\<lambda>entity_type.
       let properties =
             filter (\<lambda>kv. fst kv \<noteq> ''type'' \<and> fst kv \<noteq> ''created_at'') (dict_items data)
               @ [(''created_at'', JStr timestamp)]
       in if \<not> is_identifier entity_type then Inl Neo4jError
          else bind_err (create_node entity_type properties tx) (\<lambda>tx'.
                 Inr (\<lparr>entity_id = dict_get data ''id'' (JStr uuid), entity_type = entity_type,
                       relationships_created = 0\<rparr>, tx')))"

text \<open>
  \<^verbatim>\<open>_create_healthcare_entity\<close>: \<open>timestamp\<close> is the reading of
  \<^verbatim>\<open>datetime.utcnow().isoformat()\<close>, \<open>uuid\<close> the value of \<^verbatim>\<open>str(uuid.uuid4())\<close>. The
  \<^verbatim>\<open>entity_id\<close> computed here is only logged.
\<close>

definition create_healthcare_entity ::
  "string \<Rightarrow> string \<Rightarrow> graph \<Rightarrow> pydict \<Rightarrow> pyerr + (write_result \<times> graph)" where
  "create_healthcare_entity timestamp uuid tx message_data =
     bind_err (case dict_get message_data ''type'' (JStr ''unknown'') of
                 JStr t \<Rightarrow> Inr (py_lower t)
               | _ \<Rightarrow> Inl AttributeError) (\<lambda>message_type.
       let entity_id = dict_get message_data ''id'' (JStr uuid)
       in if message_type = ''hospital'' then create_hospital timestamp tx message_data
          else if message_type = ''doctor'' then create_doctor timestamp tx message_data
          else if message_type = ''patient'' then create_patient timestamp tx message_data
          else if message_type = ''diagnosis'' then create_diagnosis timestamp tx message_data
          else if message_type = ''medication'' then create_medication timestamp tx message_data
          else if message_type = ''procedure'' then create_procedure timestamp tx message_data
          else create_generic_entity timestamp uuid tx message_data)"

text \<open>
  \<^verbatim>\<open>HealthcareNeo4jService.process_healthcare_message\<close>: the handler runs in one write
  transaction, so an exception leaves the graph as it was.
\<close>

definition service_process_healthcare_message ::
  "string \<Rightarrow> string \<Rightarrow> graph \<Rightarrow> pydict \<Rightarrow> (pyerr + write_result) \<times> graph" where
  "service_process_healthcare_message timestamp uuid g message_data =
     (case create_healthcare_entity timestamp uuid g message_data of
        Inl e \<Rightarrow> (Inl e, g)
      | Inr (result, g') \<Rightarrow> (Inr result, g'))"


section \<open>Statistics (healthcare_neo4j_service.py)\<close>








section \<open>Ingestion dispatcher (healthcare_app.py)\<close>

text \<open>
  What \<^verbatim>\<open>process_healthcare_message\<close> may be handed: a \<^verbatim>\<open>str\<close>, a \<^verbatim>\<open>bytes\<close> object (a
  list of bytes), or any other object. Of the other objects the model has the
  \<^verbatim>\<open>bytearray\<close>, which the library decoders accept as they accept bytes, and the values
  that JSON text stands for (a dict, a list, a number, \<^verbatim>\<open>None\<close>).
\<close>

datatype pyobject = PyBytearray string | PyValue jval

datatype wire = WStr string | WBytes string | WOther pyobject

text \<open>
  The library decoders, taken as given: \<^verbatim>\<open>json.loads\<close> on text, \<^verbatim>\<open>bytes.decode('utf-8')\<close>,
  and \<^verbatim>\<open>base64.b64decode\<close> and \<^verbatim>\<open>json.loads\<close> applied to an object that is neither
  \<^verbatim>\<open>str\<close> nor \<^verbatim>\<open>bytes\<close>.
\<close>

record codecs =
  json_loads :: "string \<Rightarrow> pyerr + jval"
  utf8_decode :: "string \<Rightarrow> pyerr + string"
  b64decode :: "pyobject \<Rightarrow> pyerr + string"
  json_loads_obj :: "pyobject \<Rightarrow> pyerr + jval"

text \<open>The decoding at the head of \<^verbatim>\<open>process_healthcare_message\<close>.\<close>

definition decode_payload :: "codecs \<Rightarrow> wire \<Rightarrow> pyerr + jval" where
  "decode_payload c message_data =
     (case message_data of
        WStr s \<Rightarrow> json_loads c s
      | WBytes b \<Rightarrow> bind_err (utf8_decode c b) (json_loads c)
      | WOther v \<Rightarrow>
          (case bind_err (b64decode c v) (\<lambda>b. bind_err (utf8_decode c b) (json_loads c)) of
             Inr data \<Rightarrow> Inr data
           | Inl e \<Rightarrow> json_loads_obj c v))"

text \<open>\<^verbatim>\<open>data.get\<close> exists on a dict only.\<close>

definition as_dict :: "jval \<Rightarrow> pyerr + pydict" where
  "as_dict data = (case data of JObj kvs \<Rightarrow> Inr kvs | _ \<Rightarrow> Inl AttributeError)"

text \<open>
  The module-level \<^verbatim>\<open>performance_stats\<close> dict. Its updates are not guarded by a lock; the
  model runs one message at a time.
\<close>

record performance_stats =
  ps_messages_processed :: nat
  ps_messages_failed :: nat
  ps_total_processing_time :: real
  ps_relationships_created :: nat
  ps_start_time :: real

record app_state =
  stats :: performance_stats
  store :: graph

text \<open>
  \<^verbatim>\<open>process_healthcare_message\<close>; \<open>processing_time\<close> is \<^verbatim>\<open>time.time() - start_time\<close> as
  read on the path taken. \<open>Inl e\<close> is the exception re-raised to the caller.
\<close>

definition record_failed :: "real \<Rightarrow> app_state \<Rightarrow> app_state" where
  "record_failed processing_time st =
     st\<lparr>stats := (stats st)
          \<lparr>ps_messages_failed := ps_messages_failed (stats st) + 1,
           ps_total_processing_time :=
             float_add (ps_total_processing_time (stats st)) processing_time\<rparr>\<rparr>"

definition record_processed :: "real \<Rightarrow> write_result \<Rightarrow> graph \<Rightarrow> app_state \<Rightarrow> app_state" where
  "record_processed processing_time result g st =
     st\<lparr>stats := (stats st)
          \<lparr>ps_messages_processed := ps_messages_processed (stats st) + 1,
           ps_total_processing_time :=
             float_add (ps_total_processing_time (stats st)) processing_time,
           ps_relationships_created :=
             ps_relationships_created (stats st) + relationships_created result\<rparr>,
        store := g\<rparr>"

definition process_healthcare_message ::
  "codecs \<Rightarrow> string \<Rightarrow> string \<Rightarrow> real \<Rightarrow> app_state \<Rightarrow> wire \<Rightarrow> (pyerr + pydict) \<times> app_state" where
  "process_healthcare_message c timestamp uuid processing_time st message_data =
     (case bind_err (decode_payload c message_data) as_dict of
        Inl e \<Rightarrow> (Inl e, record_failed processing_time st)
      | Inr data \<Rightarrow>
          (case service_process_healthcare_message timestamp uuid (store st) data of
             (Inl e, g) \<Rightarrow> (Inl e, record_failed processing_time st)
           | (Inr result, g) \<Rightarrow>
               (Inr [(''status'', JStr ''success''),
                     (''entity_id'', entity_id result),
                     (''type'', JStr (entity_type result)),
                     (''relationships_created'', JInt (int (relationships_created result))),
                     (''processing_time_ms'', JFloat (py_round (float_mul processing_time 1000) 2))],
                record_processed processing_time result g st)))"


section \<open>Example inputs\<close>

text \<open>A metrics state with one message sent and two failed.\<close>

definition metrics_one_of_three :: HealthcarePublisherMetrics where
  "metrics_one_of_three =
     \<lparr>start_time = Some 1, end_time = Some 2, messages_sent = 1, messages_failed = 2,
      total_bytes_sent = 30, batch_times = []\<rparr>"

text \<open>A metrics state with 23 messages sent and 137 failed.\<close>

definition metrics_23_of_160 :: HealthcarePublisherMetrics where
  "metrics_23_of_160 =
     \<lparr>start_time = Some 1, end_time = Some 2, messages_sent = 23, messages_failed = 137,
      total_bytes_sent = 920, batch_times = []\<rparr>"

text \<open>A record of the dataset, and a dataset of 237 of them.\<close>

definition patient_record :: pydict where
  "patient_record = [(''type'', JStr ''patient''), (''id'', JStr ''p1'')]"

definition dataset_237 :: "pydict list" where
  "dataset_237 = replicate 237 patient_record"

text \<open>
  A transport whose \<^verbatim>\<open>publish\<close> call raises for the first message of batch 0 and
  acknowledges every other message.
\<close>

definition failing_transport :: pub_env where
  "failing_transport =
     \<lparr>publish = (\<lambda>batch_id i message. if batch_id = 0 \<and> i = 0 then PublishRaises else Acked),
      data_size = (\<lambda>message. 40),
      batch_elapsed = (\<lambda>batch_id. 1),
      t_start = 1,
      t_end = 2,
      float_sum = foldl float_add 0\<rparr>"

text \<open>A transport that acknowledges the first message of every batch and times out on the rest.\<close>

definition flaky_transport :: pub_env where
  "flaky_transport =
     \<lparr>publish = (\<lambda>batch_id i message. if i = 0 then Acked else ResultRaises),
      data_size = (\<lambda>message. 40),
      batch_elapsed = (\<lambda>batch_id. 1),
      t_start = 1,
      t_end = 2,
      float_sum = foldl float_add 0\<rparr>"


text \<open>Envelopes, decoders and a dispatcher state.\<close>

definition hospital_no_id :: pydict where
  "hospital_no_id = [(''type'', JStr ''hospital'')]"

definition hospital_h1 :: pydict where
  "hospital_h1 = [(''type'', JStr ''hospital''), (''id'', JStr ''h1''), (''name'', JStr ''Test'')]"

text \<open>
  The base64 encoding of the JSON text \<^verbatim>\<open>{"type": "hospital"}\<close>, which is what a push
  subscription delivers in the \<^verbatim>\<open>data\<close> field, and the text that
  \<^verbatim>\<open>base64.b64decode(...).decode('utf-8')\<close> gives back for it.
\<close>

definition hospital_base64 :: string where
  "hospital_base64 = ''eyJ0eXBlIjogImhvc3BpdGFsIn0=''"

definition hospital_base64_decoded :: string where
  "hospital_base64_decoded = ''{\"type\": \"hospital\"}''"

text \<open>
  What the library decoders do on the inputs used below: \<^verbatim>\<open>json.loads\<close> on three JSON texts
  (any other text used below is not JSON), \<^verbatim>\<open>decode('utf-8')\<close> on ASCII bytes and on bytes
  of 128 and more, which no input below arranges into a valid sequence, \<^verbatim>\<open>b64decode\<close> and
  \<^verbatim>\<open>json.loads\<close> on the bytearrays used below, and both of them on a value that is not
  bytes-like, which they reject with \<^verbatim>\<open>TypeError\<close>.
\<close>

definition example_codecs :: codecs where
  "example_codecs =
     \<lparr>json_loads = (\<lambda>s. if s = ''{\"type\": \"hospital\"}'' then Inr (JObj hospital_no_id)
                         else if s = ''{\"type\": \"hospital\", \"id\": \"h1\", \"name\": \"Test\"}''
                         then Inr (JObj hospital_h1)
                         else if s = ''[1]'' then Inr (JList [JInt 1])
                         else Inl JSONDecodeError),
      utf8_decode = (\<lambda>b. if list_all (\<lambda>c. (of_char c :: nat) < 128) b then Inr b
                          else Inl UnicodeDecodeError),
      b64decode = (\<lambda>x. case x of
                          PyBytearray b \<Rightarrow> if b = hospital_base64 then Inr hospital_base64_decoded
                                           else Inl BinasciiError
                        | PyValue v \<Rightarrow> Inl TypeError),
      json_loads_obj = (\<lambda>x. case x of
                          PyBytearray b \<Rightarrow> if b = ''[1]'' then Inr (JList [JInt 1])
                                           else Inl JSONDecodeError
                        | PyValue v \<Rightarrow> Inl TypeError)\<rparr>"

definition fresh_state :: app_state where
  "fresh_state =
     \<lparr>stats = \<lparr>ps_messages_processed = 0, ps_messages_failed = 0, ps_total_processing_time = 0,
               ps_relationships_created = 0, ps_start_time = 1\<rparr>,
      store = empty_graph\<rparr>"

definition hospital_h1_node :: gnode where
  "hospital_h1_node =
     \<lparr>nlabel = ''Hospital'',
      nprops = [''id'' \<mapsto> JStr ''h1'', ''name'' \<mapsto> JStr ''Test'', ''location'' \<mapsto> JStr [],
                ''hospital_type'' \<mapsto> JStr [], ''bed_count'' \<mapsto> JInt 0,
                ''trauma_center'' \<mapsto> JBool False, ''teaching_hospital'' \<mapsto> JBool False,
                ''updated_at'' \<mapsto> JStr ''t1'']\<rparr>"


text \<open>The scenario of the specification: a hospital, a doctor working there, two diagnoses.\<close>

definition doctor_p1 :: pydict where
  "doctor_p1 = [(''type'', JStr ''doctor''), (''id'', JStr ''p1''), (''hospital_id'', JStr ''h1'')]"

definition diagnosis_d1 :: pydict where
  "diagnosis_d1 =
     [(''type'', JStr ''diagnosis''), (''id'', JStr ''d1''), (''patient_id'', JStr ''missing''),
      (''doctor_id'', JStr ''p1''), (''icd10_code'', JStr ''I10'')]"

definition diagnosis_d2 :: pydict where
  "diagnosis_d2 =
     [(''type'', JStr ''diagnosis''), (''id'', JStr ''d2''), (''patient_id'', JStr ''missing''),
      (''doctor_id'', JStr ''p1''), (''icd10_code'', JStr ''I10'')]"

definition doctor_p1_node :: gnode where
  "doctor_p1_node =
     \<lparr>nlabel = ''Doctor'',
      nprops = [''id'' \<mapsto> JStr ''p1'', ''name'' \<mapsto> JStr [], ''specialty'' \<mapsto> JStr [],
                ''license_number'' \<mapsto> JStr [], ''years_experience'' \<mapsto> JInt 0,
                ''updated_at'' \<mapsto> JStr ''t2'']\<rparr>"

definition diagnosis_node :: "string \<Rightarrow> string \<Rightarrow> gnode" where
  "diagnosis_node i ts =
     \<lparr>nlabel = ''Diagnosis'',
      nprops = [''id'' \<mapsto> JStr i, ''icd10_code'' \<mapsto> JStr ''I10'', ''description'' \<mapsto> JStr [],
                ''severity'' \<mapsto> JStr [], ''diagnosed_date'' \<mapsto> JStr [], ''status'' \<mapsto> JStr [],
                ''created_at'' \<mapsto> JStr ts]\<rparr>"

definition graph_h1 :: graph where
  "graph_h1 = \<lparr>nodes = [hospital_h1_node], rels = []\<rparr>"

definition graph_h1_p1 :: graph where
  "graph_h1_p1 =
     \<lparr>nodes = [hospital_h1_node, doctor_p1_node],
      rels = [\<lparr>rsrc = 1, rtype = ''WORKS_AT'', rprops = Map.empty, rdst = 0\<rparr>]\<rparr>"

definition graph_h1_p1_d1 :: graph where
  "graph_h1_p1_d1 =
     \<lparr>nodes = [hospital_h1_node, doctor_p1_node, diagnosis_node ''d1'' ''t3''],
      rels = [\<lparr>rsrc = 1, rtype = ''WORKS_AT'', rprops = Map.empty, rdst = 0\<rparr>,
              \<lparr>rsrc = 1, rtype = ''DIAGNOSED'', rprops = Map.empty, rdst = 2\<rparr>]\<rparr>"




text \<open>A second envelope for hospital \<open>h1\<close>, with other field values.\<close>

definition hospital_h1_renamed :: pydict where
  "hospital_h1_renamed =
     [(''type'', JStr ''Hospital''), (''id'', JStr ''h1''), (''name'', JStr ''Renamed''),
      (''bed_count'', JInt 10)]"
section \<open>Properties of double arithmetic\<close>

lemma pow2_powi: "pow2 e = 2 powi e"
  by (simp add: pow2_def power_int_def field_simps power_one_over)

lemma floor_log2_bounds:
  "0 < n \<Longrightarrow> 2 ^ floor_log2 n \<le> n \<and> n < 2 ^ Suc (floor_log2 n)"
proof (induction n rule: floor_log2.induct)
  case (1 n)
  show ?case
  proof (cases "n < 2")
    case True
    with "1.prems" have "n = 1" by simp
    thus ?thesis by (simp add: floor_log2.simps)
  next
    case False
    hence pos: "0 < n div 2" by simp
    from "1.IH" [OF False pos]
    have lo: "2 ^ floor_log2 (n div 2) \<le> n div 2" and hi: "n div 2 < 2 ^ Suc (floor_log2 (n div 2))"
      by simp_all
    have eq: "floor_log2 n = Suc (floor_log2 (n div 2))"
      using False by (subst floor_log2.simps) simp
    from lo have "2 * 2 ^ floor_log2 (n div 2) \<le> n" by linarith
    moreover from hi have "n < 2 * 2 ^ Suc (floor_log2 (n div 2))" by linarith
    ultimately show ?thesis by (simp add: eq)
  qed
qed

lemma floor_log2_bounds_real:
  assumes "0 < n"
  shows "(2::real) ^ floor_log2 n \<le> real n \<and> real n + 1 \<le> 2 ^ Suc (floor_log2 n)"
proof -
  from floor_log2_bounds [OF assms]
  have a: "2 ^ floor_log2 n \<le> n" and b: "Suc n \<le> 2 ^ Suc (floor_log2 n)" by simp_all
  from a have "real (2 ^ floor_log2 n) \<le> real n" by (rule of_nat_mono)
  moreover from b have "real (Suc n) \<le> real (2 ^ Suc (floor_log2 n))" by (rule of_nat_mono)
  ultimately show ?thesis by simp
qed

lemma pow2_pos: "0 < pow2 e"
  by (simp add: pow2_def)

lemma pow2_nat: "pow2 (int n) = 2 ^ n"
  by (simp add: pow2_def)

lemma pow2_neg_nat: "pow2 (- int n) = 1 / 2 ^ n"
  by (cases n) (simp_all add: pow2_def nat_add_distrib)

lemma pow2_add: "pow2 (a + b) = pow2 a * pow2 b"
  by (simp add: pow2_powi power_int_add)

lemma pow2_diff: "pow2 (a - b) = pow2 a / pow2 b"
  by (simp add: pow2_powi power_int_diff)

lemma pow2_mono: "a \<le> b \<Longrightarrow> pow2 a \<le> pow2 b"
  by (simp add: pow2_powi power_int_increasing)

text \<open>The binary exponent brackets the magnitude.\<close>

lemma binary_exponent_bounds:
  assumes "x \<noteq> 0"
  shows "pow2 (binary_exponent x) \<le> \<bar>x\<bar> \<and> \<bar>x\<bar> < pow2 (binary_exponent x + 1)"
proof (cases "1 \<le> \<bar>x\<bar>")
  case True
  define n where "n = nat \<lfloor>\<bar>x\<bar>\<rfloor>"
  have n: "0 < n" using True by (simp add: n_def)
  have e: "binary_exponent x = int (floor_log2 n)"
    using True by (simp add: binary_exponent_def n_def)
  have rn: "real n = of_int \<lfloor>\<bar>x\<bar>\<rfloor>" by (simp add: n_def)
  have nle: "real n \<le> \<bar>x\<bar>" unfolding rn by (rule of_int_floor_le)
  have nlt: "\<bar>x\<bar> < real n + 1" unfolding rn by linarith
  from floor_log2_bounds_real [OF n]
  have lo: "(2::real) ^ floor_log2 n \<le> real n" and hi: "real n + 1 \<le> 2 ^ Suc (floor_log2 n)"
    by simp_all
  have p1: "pow2 (binary_exponent x) = 2 ^ floor_log2 n"
    by (simp add: e pow2_nat)
  have p2: "pow2 (binary_exponent x + 1) = 2 ^ Suc (floor_log2 n)"
    using pow2_nat [of "Suc (floor_log2 n)"] by (simp add: e add.commute)
  have "(2::real) ^ floor_log2 n \<le> \<bar>x\<bar>" using lo nle by linarith
  moreover have "\<bar>x\<bar> < 2 ^ Suc (floor_log2 n)" using hi nlt by linarith
  ultimately show ?thesis unfolding p1 p2 by blast
next
  case False
  define a where "a = \<bar>x\<bar>"
  have a: "0 < a" "a < 1" using False assms by (simp_all add: a_def)
  define m where "m = nat \<lfloor>1 / a\<rfloor>"
  define k where "k = floor_log2 m"
  have "1 \<le> 1 / a" using a by simp
  hence "0 < \<lfloor>1 / a\<rfloor>" by linarith
  hence m: "0 < m" by (simp add: m_def)
  have "0 \<le> \<lfloor>1 / a\<rfloor>" using \<open>1 \<le> 1 / a\<close> by linarith
  hence rm: "real m = of_int \<lfloor>1 / a\<rfloor>" unfolding m_def by (rule of_nat_nat)
  have mle: "real m \<le> 1 / a" unfolding rm by (rule of_int_floor_le)
  have mlt: "1 / a < real m + 1" unfolding rm by linarith
  from floor_log2_bounds_real [OF m]
  have lo: "(2::real) ^ k \<le> real m" and hi: "real m + 1 \<le> 2 ^ Suc k"
    unfolding k_def by simp_all
  have up: "a \<le> 1 / 2 ^ k"
  proof -
    have "2 ^ k \<le> 1 / a" using lo mle by linarith
    thus ?thesis using a by (simp add: field_simps)
  qed
  have down: "1 / 2 ^ Suc k < a"
  proof -
    have "1 / a < 2 ^ Suc k" using hi mlt by linarith
    thus ?thesis using a by (simp add: field_simps)
  qed
  show ?thesis
  proof (cases "a = pow2 (- int k)")
    case True
    hence e: "binary_exponent x = - int k"
      using False by (simp add: binary_exponent_def Let_def a_def m_def k_def)
    have "pow2 (- int k + 1) = pow2 (- int k) * 2"
      unfolding pow2_add by (simp add: pow2_def)
    hence "pow2 (- int k) < pow2 (- int k + 1)"
      using pow2_pos [of "- int k"] by linarith
    thus ?thesis using True by (simp add: e a_def)
  next
    case ne: False
    hence e: "binary_exponent x = - int k - 1"
      using False by (simp add: binary_exponent_def Let_def a_def m_def k_def)
    have "- int k - 1 = - int (Suc k)" by simp
    hence p1: "pow2 (binary_exponent x) = 1 / 2 ^ Suc k"
      unfolding e by (simp only: pow2_neg_nat)
    have p2: "pow2 (binary_exponent x + 1) = 1 / 2 ^ k"
      unfolding e using pow2_neg_nat [of k] by simp
    have "a \<noteq> 1 / 2 ^ k" using ne by (simp add: pow2_neg_nat)
    with up have "a < 1 / 2 ^ k" by simp
    thus ?thesis using down unfolding p1 p2 a_def by simp
  qed
qed

lemma round_half_even_near: "\<bar>real_of_int (round_half_even x) - x\<bar> \<le> 1/2"
proof -
  have "real_of_int \<lfloor>x\<rfloor> \<le> x" "x < real_of_int \<lfloor>x\<rfloor> + 1" by linarith+
  thus ?thesis
    by (auto simp: round_half_even_def Let_def)
qed

text \<open>Rounding to a double changes a number by at most half a unit in the last place.\<close>

lemma to_double_near: "\<bar>to_double x - x\<bar> \<le> (\<bar>x\<bar> + 1) / 2 ^ 53"
proof (cases "x = 0")
  case True
  thus ?thesis by (simp add: to_double_def)
next
  case False
  define ulp where "ulp = pow2 (max (binary_exponent x) (- 1022) - 52)"
  have ulp: "0 < ulp" by (simp add: ulp_def pow2_pos)
  have td: "to_double x = of_int (round_half_even (x / ulp)) * ulp"
    using False by (simp add: to_double_def Let_def ulp_def)
  have "\<bar>to_double x - x\<bar> = \<bar>of_int (round_half_even (x / ulp)) - x / ulp\<bar> * ulp"
  proof -
    have "to_double x - x = (of_int (round_half_even (x / ulp)) - x / ulp) * ulp"
      using ulp by (simp add: td field_simps)
    thus ?thesis using ulp by (simp add: abs_mult)
  qed
  also have "\<dots> \<le> 1/2 * ulp"
    using round_half_even_near [of "x / ulp"] ulp by (intro mult_right_mono) auto
  also have "\<dots> \<le> (\<bar>x\<bar> + 1) / 2 ^ 53"
  proof (cases "- 1022 \<le> binary_exponent x")
    case True
    hence "ulp = pow2 (binary_exponent x) / pow2 52"
      by (simp add: ulp_def pow2_diff max_def)
    also have "\<dots> \<le> \<bar>x\<bar> / pow2 52"
      using binary_exponent_bounds [OF False] pow2_pos [of 52] by (intro divide_right_mono) auto
    finally have "ulp \<le> \<bar>x\<bar> / 2 ^ 52" by (simp add: pow2_def)
    thus ?thesis by (simp add: field_simps)
  next
    case False
    hence "ulp = pow2 (- 1074)" by (simp add: ulp_def max_def)
    also have "\<dots> \<le> pow2 (- 52)" by (rule pow2_mono) simp
    finally have "ulp \<le> 1 / 2 ^ 52" by (simp add: pow2_def)
    thus ?thesis by (simp add: field_simps)
  qed
  finally show ?thesis .
qed

lemma to_double_zero [simp]: "to_double 0 = 0"
  by (simp add: to_double_def)

lemmas double_eval =
  to_double_def binary_exponent_def floor_log2.simps round_half_even_def pow2_def Let_def

lemma to_double_small_ints: "to_double 1 = 1" "to_double 100 = 100"
  by (simp_all add: double_eval)

lemma to_double_hundredth: "to_double (1/100) = 5764607523034235 / 576460752303423488"
  by (simp add: double_eval)

lemma to_double_ge_one:
  assumes "1 \<le> x"
  shows "0 < to_double x"
proof -
  have "\<bar>to_double x - x\<bar> \<le> (\<bar>x\<bar> + 1) / 2 ^ 53" by (rule to_double_near)
  moreover have "\<bar>x\<bar> = x" using assms by simp
  ultimately have "x - (x + 1) / 2 ^ 53 \<le> to_double x" by linarith
  moreover have "(x + 1) / 2 ^ 53 < x" using assms by (simp add: field_simps)
  ultimately show ?thesis by linarith
qed

lemma int_to_float_max_nonzero: "int_to_float (int (max n 1)) \<noteq> 0"
proof -
  have "1 \<le> real (max n 1)" by (simp add: max_def)
  from to_double_ge_one [OF this] show ?thesis by (simp add: int_to_float_def)
qed

lemma max_hundredth_nonzero: "max d (to_double (1/100)) \<noteq> 0"
  unfolding to_double_hundredth by (simp add: max_def)

text \<open>
  The rate of the publisher: a quotient in \<open>[0, 1]\<close> is rounded to a double, multiplied by 100
  and rounded to two decimals. The three roundings of double arithmetic move the result by
  less than \<open>10\<^sup>-\<^sup>1\<^sup>2\<close> on top of the half cent of the decimal rounding.
\<close>

lemma percent_near:
  assumes "0 \<le> q" and "q \<le> 1"
  shows "\<bar>py_round (float_mul (to_double q) 100) 2 - 100 * q\<bar> \<le> 1 / 200 + 1 / 10 ^ 12"
proof -
  define E :: real where "E = 1 / 2 ^ 53"
  have E: "0 < E" "E \<le> 1 / 1000000000000000" by (simp_all add: E_def)
  define x1 where "x1 = to_double q"
  define x2 where "x2 = to_double (x1 * 100)"
  define y where "y = real_of_int (round_half_even (x2 * 100)) / 100"
  have r: "py_round (float_mul (to_double q) 100) 2 = to_double y"
    by (simp add: py_round_def float_mul_def x1_def x2_def y_def)
  have n1: "\<bar>x1 - q\<bar> \<le> (\<bar>q\<bar> + 1) * E"
    using to_double_near [of q] by (simp add: x1_def E_def)
  hence b1: "\<bar>x1 - q\<bar> \<le> 2 * E"
  proof -
    have "(\<bar>q\<bar> + 1) * E \<le> 2 * E" using assms E by (intro mult_right_mono) auto
    with n1 show ?thesis by linarith
  qed
  hence a1: "\<bar>x1\<bar> \<le> 2" using assms E by linarith
  have n2: "\<bar>x2 - x1 * 100\<bar> \<le> (\<bar>x1 * 100\<bar> + 1) * E"
    using to_double_near [of "x1 * 100"] by (simp add: x2_def E_def)
  have b2: "\<bar>x2 - x1 * 100\<bar> \<le> 201 * E"
  proof -
    have "\<bar>x1 * 100\<bar> + 1 \<le> 201" using a1 by (simp add: abs_mult)
    hence "(\<bar>x1 * 100\<bar> + 1) * E \<le> 201 * E" using E by (intro mult_right_mono) auto
    with n2 show ?thesis by linarith
  qed
  have c2: "\<bar>x2 - 100 * q\<bar> \<le> 401 * E"
    using b1 b2 by linarith
  have n3: "\<bar>y - x2\<bar> \<le> 1 / 200"
  proof -
    have "\<bar>y - x2\<bar> = \<bar>real_of_int (round_half_even (x2 * 100)) - x2 * 100\<bar> / 100"
      by (simp add: y_def field_simps abs_divide)
    also have "\<dots> \<le> (1/2) / 100"
      using round_half_even_near [of "x2 * 100"] by (intro divide_right_mono) auto
    finally show ?thesis by simp
  qed
  have a3: "\<bar>y\<bar> \<le> 101"
    using n3 c2 assms E by linarith
  have n4: "\<bar>to_double y - y\<bar> \<le> (\<bar>y\<bar> + 1) * E"
    using to_double_near [of y] by (simp add: E_def)
  have b4: "\<bar>to_double y - y\<bar> \<le> 102 * E"
  proof -
    have "(\<bar>y\<bar> + 1) * E \<le> 102 * E" using a3 E by (intro mult_right_mono) auto
    with n4 show ?thesis by linarith
  qed
  have "\<bar>to_double y - 100 * q\<bar> \<le> 1 / 200 + 503 * E"
    using b4 n3 c2 by linarith
  moreover have "503 * E \<le> 1 / 1000000000000" using E by linarith
  ultimately have "\<bar>to_double y - 100 * q\<bar> \<le> 1 / 200 + 1 / 1000000000000" by linarith
  thus ?thesis unfolding r by simp
qed

lemma percent_two_decimals: "\<exists>k. py_round x 2 = to_double (real_of_int k / 100)"
  by (auto simp: py_round_def)

lemma percent_none: "py_round (float_mul (to_double 0) 100) 2 = 0"
  by (simp add: py_round_def float_mul_def round_half_even_def)

lemma percent_all: "py_round (float_mul (to_double 1) 100) 2 = 100"
  by (simp add: py_round_def float_mul_def to_double_small_ints round_half_even_def)


section \<open>Properties of the publisher\<close>

subsection \<open>The statistics\<close>

lemma get_stats_rate:
  assumes "time_set (start_time m)"
  shows "bind_err (get_stats fsum now m) (\<lambda>d. dict_index d ''success_rate_percent'')
     = Inr (JFloat (py_round (float_mul (to_double (real (messages_sent m)
                      / real (max (messages_sent m + messages_failed m) 1))) 100) 2))"
proof -
  have l: "max (messages_sent m) 1 \<noteq> 0" "max (messages_sent m + messages_failed m) 1 \<noteq> 0"
    by (auto simp: max_def)
  note z = int_to_float_max_nonzero [of "length (batch_times m)"]
  show ?thesis
    using assms l z
    by (simp add: get_stats_def Let_def bind_err_def int_truediv_def float_truediv_def
          dict_index_def max_hundredth_nonzero)
qed

lemma get_stats_total:
  assumes "time_set (start_time m)"
  shows "bind_err (get_stats fsum now m) (\<lambda>d. dict_index d ''total_messages'')
           = Inr (JInt (int (messages_sent m + messages_failed m)))
         \<and> (\<exists>kv kvs. get_stats fsum now m = Inr (kv # kvs))"
proof -
  have l: "max (messages_sent m) 1 \<noteq> 0" "max (messages_sent m + messages_failed m) 1 \<noteq> 0"
    by (auto simp: max_def)
  note z = int_to_float_max_nonzero [of "length (batch_times m)"]
  show ?thesis
    using assms l z
    by (simp add: get_stats_def Let_def bind_err_def int_truediv_def float_truediv_def
          dict_index_def max_hundredth_nonzero)
qed

subsection \<open>The success rate\<close>

text \<open>
  C4, as amended. Once publishing has started, reading \<^verbatim>\<open>success_rate_percent\<close> off
  \<^verbatim>\<open>get_stats()\<close> raises nothing (every divisor is a \<^verbatim>\<open>max\<close> with a positive number) and
  gives \<^verbatim>\<open>round((messages_sent / max(total, 1)) * 100, 2)\<close> as double arithmetic computes it:
  the double nearest to a number with two decimals, which lies within \<open>0.005 + 10\<^sup>-\<^sup>1\<^sup>2\<close> of
  \<open>100 * messages_sent / (messages_sent + messages_failed)\<close> when the total is positive, is
  0 when nothing was sent (in particular when the total is 0) and 100 when messages were
  sent and none failed.
\<close>

theorem get_stats_success_rate:
  assumes "time_set (start_time m)"
  shows "\<exists>r. bind_err (get_stats fsum now m) (\<lambda>d. dict_index d ''success_rate_percent'')
                = Inr (JFloat r)
           \<and> r = py_round (float_mul (to_double (real (messages_sent m)
                      / real (max (messages_sent m + messages_failed m) 1))) 100) 2
           \<and> (\<exists>k. r = to_double (real_of_int k / 100))
           \<and> (0 < messages_sent m + messages_failed m \<longrightarrow>
                \<bar>r - 100 * real (messages_sent m) / real (messages_sent m + messages_failed m)\<bar>
                  \<le> 1 / 200 + 1 / 10 ^ 12)
           \<and> (messages_sent m = 0 \<longrightarrow> r = 0)
           \<and> (0 < messages_sent m \<and> messages_failed m = 0 \<longrightarrow> r = 100)"
proof -
  define q where "q = real (messages_sent m) / real (max (messages_sent m + messages_failed m) 1)"
  define r where "r = py_round (float_mul (to_double q) 100) 2"
  have q: "0 \<le> q" "q \<le> 1" by (simp_all add: q_def max_def)
  have near: "0 < messages_sent m + messages_failed m \<longrightarrow>
      \<bar>r - 100 * real (messages_sent m) / real (messages_sent m + messages_failed m)\<bar>
        \<le> 1 / 200 + 1 / 10 ^ 12"
  proof
    assume "0 < messages_sent m + messages_failed m"
    hence "max (messages_sent m + messages_failed m) 1 = messages_sent m + messages_failed m"
      by (auto simp: max_def)
    hence "100 * q = 100 * real (messages_sent m) / real (messages_sent m + messages_failed m)"
      by (simp add: q_def)
    with percent_near [OF q] show
      "\<bar>r - 100 * real (messages_sent m) / real (messages_sent m + messages_failed m)\<bar>
        \<le> 1 / 200 + 1 / 10 ^ 12"
      unfolding r_def by (simp only:)
  qed
  have none: "messages_sent m = 0 \<longrightarrow> r = 0"
    using percent_none by (simp add: r_def q_def)
  have "0 < messages_sent m \<and> messages_failed m = 0 \<Longrightarrow> q = 1"
    by (simp add: q_def max_def)
  hence all: "0 < messages_sent m \<and> messages_failed m = 0 \<longrightarrow> r = 100"
    using percent_all by (auto simp: r_def)
  have val: "bind_err (get_stats fsum now m) (\<lambda>d. dict_index d ''success_rate_percent'')
          = Inr (JFloat r)"
    unfolding get_stats_rate [OF assms] by (simp add: r_def q_def)
  have dec: "\<exists>k. r = to_double (real_of_int k / 100)"
    unfolding r_def by (rule percent_two_decimals)
  show ?thesis
  proof (intro exI [of _ r] conjI)
    show "bind_err (get_stats fsum now m) (\<lambda>d. dict_index d ''success_rate_percent'')
            = Inr (JFloat r)"
      by (rule val)
    show "r = py_round (float_mul (to_double (real (messages_sent m)
                / real (max (messages_sent m + messages_failed m) 1))) 100) 2"
      by (simp add: r_def q_def)
    show "\<exists>k. r = to_double (real_of_int k / 100)" by (rule dec)
    show "0 < messages_sent m + messages_failed m \<longrightarrow>
      \<bar>r - 100 * real (messages_sent m) / real (messages_sent m + messages_failed m)\<bar>
        \<le> 1 / 200 + 1 / 10 ^ 12"
      by (rule near)
    show "messages_sent m = 0 \<longrightarrow> r = 0" by (rule none)
    show "0 < messages_sent m \<and> messages_failed m = 0 \<longrightarrow> r = 100" by (rule all)
  qed
qed

theorem get_stats_success_rate_witness:
  "time_set (start_time metrics_one_of_three)
   \<and> bind_err (get_stats (foldl float_add 0) 5 metrics_one_of_three)
         (\<lambda>d. dict_index d ''success_rate_percent'')
       = Inr (JFloat (to_double (3333 / 100)))
   \<and> \<bar>to_double (3333 / 100) - 100 * 1 / 3\<bar> \<le> 1 / 200 + 1 / 10 ^ 12"
proof -
  have t: "time_set (start_time metrics_one_of_three)"
    by (simp add: metrics_one_of_three_def)
  have e: "py_round (float_mul (to_double (1 / 3)) 100) 2 = to_double (3333 / 100)"
    by (simp add: py_round_def float_mul_def double_eval)
  have s: "messages_sent metrics_one_of_three = 1" "messages_failed metrics_one_of_three = 2"
    by (simp_all add: metrics_one_of_three_def)
  from get_stats_success_rate [OF t, of "foldl float_add 0" 5] obtain r where
    a: "bind_err (get_stats (foldl float_add 0) 5 metrics_one_of_three)
          (\<lambda>d. dict_index d ''success_rate_percent'') = Inr (JFloat r)"
    and b: "r = py_round (float_mul (to_double (real (messages_sent metrics_one_of_three)
                / real (max (messages_sent metrics_one_of_three
                             + messages_failed metrics_one_of_three) 1))) 100) 2"
    and c: "0 < messages_sent metrics_one_of_three + messages_failed metrics_one_of_three \<longrightarrow>
             \<bar>r - 100 * real (messages_sent metrics_one_of_three)
                   / real (messages_sent metrics_one_of_three
                           + messages_failed metrics_one_of_three)\<bar>
               \<le> 1 / 200 + 1 / 10 ^ 12"
    by (elim exE conjE) (rule that)
  from b e have r: "r = to_double (3333 / 100)" by (simp add: s)
  from c have n: "\<bar>r - 100 * 1 / 3\<bar> \<le> 1 / 200 + 1 / 10 ^ 12" by (simp add: s)
  from t a n show ?thesis unfolding r by (intro conjI)
qed

text \<open>
  C4 as stated fails: with 23 messages sent and 137 failed the quotient \<open>23 / 160\<close> is
  rounded down to a double, its product with 100 is the double just below \<open>14.375\<close>, and
  the reported rate is \<open>14.37\<close>, neither the ratio \<open>14.375\<close> nor that ratio computed in
  doubles; and before \<^verbatim>\<open>start_publishing\<close> the statistics are the empty dict, so the key is
  not there.
\<close>

theorem get_stats_success_rate_counterexample:
  "bind_err (get_stats (foldl float_add 0) 5 metrics_23_of_160)
        (\<lambda>d. dict_index d ''success_rate_percent'')
       = Inr (JFloat (to_double (1437 / 100)))
   \<and> to_double (1437 / 100) \<noteq> 100 * 23 / (23 + 137)
   \<and> to_double (1437 / 100) \<noteq> to_double (100 * 23 / (23 + 137))
   \<and> bind_err (get_stats (foldl float_add 0) 5 (metrics_init\<lparr>messages_sent := 1\<rparr>))
        (\<lambda>d. dict_index d ''success_rate_percent'') = Inl KeyError"
proof -
  have t: "time_set (start_time metrics_23_of_160)"
    by (simp add: metrics_23_of_160_def)
  have e: "py_round (float_mul (to_double (23 / 160)) 100) 2 = to_double (1437 / 100)"
    by (simp add: py_round_def float_mul_def double_eval)
  have f1: "bind_err (get_stats (foldl float_add 0) 5 metrics_23_of_160)
        (\<lambda>d. dict_index d ''success_rate_percent'') = Inr (JFloat (to_double (1437 / 100)))"
    unfolding get_stats_rate [OF t] using e by (simp add: metrics_23_of_160_def)
  have f2: "to_double (1437 / 100) \<noteq> 100 * 23 / (23 + 137)"
    by (simp add: double_eval)
  have f3: "to_double (1437 / 100) \<noteq> to_double (100 * 23 / (23 + 137))"
    by (simp add: double_eval)
  have f4: "bind_err (get_stats (foldl float_add 0) 5 (metrics_init\<lparr>messages_sent := 1\<rparr>))
        (\<lambda>d. dict_index d ''success_rate_percent'') = Inl KeyError"
    by (simp add: get_stats_def metrics_init_def bind_err_def dict_index_def)
  from f1 f2 f3 f4 show ?thesis by (intro conjI)
qed

subsection \<open>One batch\<close>

lemma submit_all_length:
  "submit_all env b i messages = Some futures \<Longrightarrow> length futures = length messages"
  by (induction messages arbitrary: i futures)
     (auto split: publish_outcome.splits option.splits)

lemma wait_all_tally:
  "wait_all futures (s0, f0, m0) = (s, f, m) \<Longrightarrow> s + f = s0 + f0 + length futures"
  by (induction futures arbitrary: s0 f0 m0) (auto split: if_splits)

lemma wait_all_metrics:
  "wait_all futures (s0, f0, m0) = (s, f, m) \<Longrightarrow>
     messages_sent m + messages_failed m = messages_sent m0 + messages_failed m0 + length futures"
  by (induction futures arbitrary: s0 f0 m0)
     (auto split: if_splits simp: record_success_def record_failure_def)

lemma publish_message_batch_sum:
  "publish_message_batch env messages batch_id metrics = ((batch_success, batch_failed), metrics')
     \<Longrightarrow> batch_success + batch_failed = length messages"
  by (auto simp: publish_message_batch_def split: option.splits prod.splits
           dest!: wait_all_tally submit_all_length)

text \<open>
  C10. The pair returned by \<^verbatim>\<open>publish_message_batch\<close> sums to the number of messages of
  the batch, whatever the transport does; when the submission loop raises, the pair is
  \<open>(0, len(messages))\<close>.
\<close>

theorem publish_message_batch_tally:
  "fst (fst (publish_message_batch env messages batch_id metrics))
     + snd (fst (publish_message_batch env messages batch_id metrics)) = length messages
   \<and> (submit_all env batch_id 0 messages = None \<longrightarrow>
        fst (publish_message_batch env messages batch_id metrics) = (0, length messages))"
proof -
  obtain s f m' where r: "publish_message_batch env messages batch_id metrics = ((s, f), m')"
    by (metis surj_pair)
  from publish_message_batch_sum [OF r] r show ?thesis
    by (auto simp: publish_message_batch_def)
qed

theorem publish_message_batch_tally_witness:
  "submit_all failing_transport 0 0 [patient_record, patient_record] = None
   \<and> fst (publish_message_batch failing_transport [patient_record, patient_record] 0 metrics_init)
       = (0, 2)
   \<and> fst (publish_message_batch flaky_transport [patient_record, patient_record] 0 metrics_init)
       = (1, 1)"
  using publish_message_batch_tally
          [of failing_transport "[patient_record, patient_record]" 0 metrics_init]
  by (simp add: failing_transport_def flaky_transport_def publish_message_batch_def
        record_success_def record_failure_def)

subsection \<open>Splitting into batches\<close>

lemma range_step_concat:
  "0 < k \<Longrightarrow> i \<le> length xs \<Longrightarrow>
     concat (map (\<lambda>j. take k (drop j xs)) (range_step i (length xs) k)) = drop i xs"
proof (induction i "length xs" k rule: range_step.induct)
  case (1 i k)
  show ?case
  proof (cases "i < length xs")
    case True
    have *: "concat (map (\<lambda>j. take k (drop j xs)) (range_step (i + k) (length xs) k))
               = drop (i + k) xs"
    proof (cases "i + k \<le> length xs")
      case True
      with 1 \<open>i < length xs\<close> show ?thesis by simp
    next
      case False
      then have "range_step (i + k) (length xs) k = []"
        by (subst range_step.simps) simp
      with False show ?thesis by simp
    qed
    have "range_step i (length xs) k = i # range_step (i + k) (length xs) k"
      using True 1(2) by (subst range_step.simps) simp
    then have "concat (map (\<lambda>j. take k (drop j xs)) (range_step i (length xs) k))
        = take k (drop i xs) @ drop (i + k) xs"
      using * by simp
    also have "\<dots> = drop i xs"
      by (metis append_take_drop_id drop_drop add.commute)
    finally show ?thesis .
  next
    case False
    then have "range_step i (length xs) k = []"
      by (subst range_step.simps) simp
    with False show ?thesis by simp
  qed
qed

lemma ceil_div_step:
  fixes k d :: nat
  assumes "0 < k" "0 < d"
  shows "(d + k - 1) div k = Suc ((d - k + k - 1) div k)"
proof -
  have "d + k - 1 = (d - 1) + k" using assms by simp
  then have a: "(d + k - 1) div k = Suc ((d - 1) div k)"
    using assms by (simp only: div_add_self2)
  show ?thesis
  proof (cases "k \<le> d")
    case True
    then have "d - k + k - 1 = d - 1" by simp
    then show ?thesis by (simp only: a)
  next
    case False
    then have "d - k + k - 1 = k - 1" "(d - 1) div k = 0" "(k - 1) div k = 0"
      using assms by auto
    then show ?thesis by (simp only: a)
  qed
qed

lemma range_step_length: "0 < k \<Longrightarrow> length (range_step i n k) = (n - i + k - 1) div k"
proof (induction i n k rule: range_step.induct)
  case (1 i n k)
  show ?case
  proof (cases "i < n")
    case True
    then have "length (range_step i n k) = Suc ((n - (i + k) + k - 1) div k)"
      using 1 by (subst range_step.simps) simp
    also have "n - (i + k) = (n - i) - k" by simp
    also have "Suc ((n - i - k + k - 1) div k) = (n - i + k - 1) div k"
      using ceil_div_step [of k "n - i"] True 1(2) by simp
    finally show ?thesis .
  next
    case False
    then have "range_step i n k = []" by (subst range_step.simps) simp
    moreover from False 1(2) have "(n - i + k - 1) div k = 0" by simp
    ultimately show ?thesis by simp
  qed
qed

lemma range_step_nth:
  "0 < k \<Longrightarrow> q < length (range_step i n k) \<Longrightarrow> range_step i n k ! q = i + q * k"
proof (induction i n k arbitrary: q rule: range_step.induct)
  case (1 i n k)
  from 1(3) have lt: "i < n"
    by (subst (asm) range_step.simps) (auto split: if_splits)
  then have eq: "range_step i n k = i # range_step (i + k) n k"
    using 1(2) by (subst range_step.simps) simp
  show ?case
  proof (cases q)
    case 0
    then show ?thesis by (simp add: eq)
  next
    case (Suc q')
    with 1(3) eq have "q' < length (range_step (i + k) n k)" by simp
    with 1(1) [OF _ 1(2)] lt 1(2) have "range_step (i + k) n k ! q' = i + k + q' * k" by simp
    with Suc show ?thesis by (simp add: eq)
  qed
qed

text \<open>
  For a positive batch size the batches are the consecutive slices of the dataset: they
  concatenate to it, there are \<open>\<lceil>n / batch_size\<rceil>\<close> of them, and batch \<open>q\<close> holds the
  records from position \<open>q * batch_size\<close> on, \<open>batch_size\<close> of them unless the dataset ends.
\<close>

lemma split_batches_partition:
  assumes "0 < batch_size"
  shows "\<exists>batches. split_batches xs batch_size = Inr batches
           \<and> concat batches = xs
           \<and> length batches = (length xs + nat batch_size - 1) div nat batch_size
           \<and> (\<forall>q < length batches.
                 batches ! q = take (nat batch_size) (drop (q * nat batch_size) xs)
                 \<and> length (batches ! q) = min (nat batch_size) (length xs - q * nat batch_size)
                 \<and> 0 < length (batches ! q))"
proof -
  let ?k = "nat batch_size"
  let ?bs = "map (\<lambda>i. take ?k (drop i xs)) (range_step 0 (length xs) ?k)"
  have k: "0 < ?k" using assms by simp
  have eq: "split_batches xs batch_size = Inr ?bs"
    using assms by (simp add: split_batches_def)
  have c: "concat ?bs = xs" using range_step_concat [OF k, of 0 xs] by simp
  have l: "length ?bs = (length xs + ?k - 1) div ?k"
    using range_step_length [OF k, of 0 "length xs"] by simp
  have n: "?bs ! q = take ?k (drop (q * ?k) xs)
           \<and> length (?bs ! q) = min ?k (length xs - q * ?k) \<and> 0 < length (?bs ! q)"
    if "q < length ?bs" for q
  proof -
    from that have q: "q < length (range_step 0 (length xs) ?k)" by simp
    then have nth: "range_step 0 (length xs) ?k ! q = q * ?k"
      using range_step_nth [OF k q] by simp
    have "q * ?k < length xs"
    proof -
      from q have "q < (length xs + ?k - 1) div ?k"
        using range_step_length [OF k, of 0 "length xs"] by simp
      then have "Suc q * ?k \<le> length xs + ?k - 1"
        using k by (metis Suc_leI less_eq_div_iff_mult_less_eq)
      then show ?thesis using k by simp
    qed
    with q nth k show ?thesis by (simp add: min.commute)
  qed
  from eq c l n show ?thesis by blast
qed

subsection \<open>The whole run\<close>

lemma submit_all_acked:
  "(\<And>j m. publish env b j m = Acked) \<Longrightarrow>
     submit_all env b i msgs = Some (map (\<lambda>m. (Acked, data_size env m)) msgs)"
  by (induction msgs arbitrary: i) auto

lemma wait_all_acked:
  "wait_all (map (\<lambda>m. (Acked, sz m)) msgs) (s, f, m0) =
     (s + length msgs, f,
      m0\<lparr>messages_sent := messages_sent m0 + length msgs,
         total_bytes_sent := total_bytes_sent m0 + sum_list (map sz msgs)\<rparr>)"
  by (induction msgs arbitrary: s m0) (auto simp: record_success_def)

lemma publish_message_batch_acked:
  "(\<And>j m. publish env b j m = Acked) \<Longrightarrow>
   publish_message_batch env msgs b m0 =
     ((length msgs, 0),
      record_batch_time (batch_elapsed env b)
        (m0\<lparr>messages_sent := messages_sent m0 + length msgs,
           total_bytes_sent := total_bytes_sent m0 + sum_list (map (data_size env) msgs)\<rparr>))"
  by (simp add: publish_message_batch_def submit_all_acked wait_all_acked)

lemma publish_message_batch_raises:
  "publish env b 0 x = PublishRaises \<Longrightarrow> 0 < n \<Longrightarrow>
   publish_message_batch env (replicate n x) b m0 = ((0, n), record_failure m0)"
  by (cases n) (simp_all add: publish_message_batch_def)

lemma split_dataset_237:
  "split_batches dataset_237 50 =
     Inr [replicate 50 patient_record, replicate 50 patient_record, replicate 50 patient_record,
          replicate 50 patient_record, replicate 37 patient_record]"
  by (simp add: split_batches_def dataset_237_def range_step.simps)

text \<open>
  When no \<^verbatim>\<open>publish\<close> call raises, every record of every batch is counted once in the
  metrics.
\<close>

lemma submit_all_some:
  assumes "\<And>i message. publish env b i message \<noteq> PublishRaises"
  shows "\<exists>futures. submit_all env b i messages = Some futures"
proof (induction messages arbitrary: i)
  case Nil
  then show ?case by simp
next
  case (Cons message messages)
  from Cons [of "Suc i"] obtain futures where "submit_all env b (Suc i) messages = Some futures"
    by blast
  with assms [of i message] show ?case
    by (cases "publish env b i message") simp_all
qed

lemma publish_message_batch_counts_all:
  assumes "\<And>i message. publish env batch_id i message \<noteq> PublishRaises"
    and "publish_message_batch env messages batch_id metrics = (r, metrics')"
  shows "messages_sent metrics' + messages_failed metrics'
           = messages_sent metrics + messages_failed metrics + length messages"
proof -
  obtain futures where f: "submit_all env batch_id 0 messages = Some futures"
    using submit_all_some [OF assms(1)] by blast
  obtain s fl m1 where w: "wait_all futures (0, 0, metrics) = (s, fl, m1)"
    by (metis prod_cases3)
  from assms(2) f w have "metrics' = record_batch_time (batch_elapsed env batch_id) m1"
    by (simp add: publish_message_batch_def)
  with wait_all_metrics [OF w] submit_all_length [OF f] show ?thesis
    by (simp add: record_batch_time_def)
qed

lemma publish_batches_counts_all:
  assumes "\<And>b i message. publish env b i message \<noteq> PublishRaises"
    and "publish_batches env i batches (s0, f0, m0) = (s, f, m)"
  shows "messages_sent m + messages_failed m
           = messages_sent m0 + messages_failed m0 + length (concat batches)"
  using assms(2)
proof (induction batches arbitrary: i s0 f0 m0)
  case Nil
  then show ?case by simp
next
  case (Cons batch batches)
  obtain bs bf m1 where b: "publish_message_batch env batch i m0 = ((bs, bf), m1)"
    by (cases "publish_message_batch env batch i m0") auto
  with Cons.prems have "publish_batches env (Suc i) batches (s0 + bs, f0 + bf, m1) = (s, f, m)"
    by simp
  from Cons.IH [OF this] publish_message_batch_counts_all [OF assms(1) b]
  show ?case by simp
qed

lemma publish_run_counts_all:
  assumes "\<And>b i message. publish env b i message \<noteq> PublishRaises"
    and "0 < batch_size"
    and "publish_run env healthcare_data batch_size = Inr (s, f, m)"
  shows "messages_sent m + messages_failed m = length healthcare_data"
proof -
  from split_batches_partition [OF assms(2), of healthcare_data]
  obtain batches where sb: "split_batches healthcare_data batch_size = Inr batches"
    and c: "concat batches = healthcare_data" by blast
  obtain s1 f1 m1 where
    pb: "publish_batches env 0 batches (0, 0, start_publishing (t_start env) metrics_init) = (s1, f1, m1)"
    by (metis prod_cases3)
  with assms(3) sb have "m = finish_publishing (t_end env) m1"
    by (simp add: publish_run_def)
  with publish_batches_counts_all [OF assms(1) pb] c show ?thesis
    by (simp add: finish_publishing_def start_publishing_def metrics_init_def)
qed

text \<open>
  C5, at the input where it fails. 237 records with \<open>batch_size = 50\<close> are split into
  batches of 50, 50, 50, 50 and 37 records. When the \<^verbatim>\<open>publish\<close> call raises for the first
  message of batch 0, the run tallies 187 sent and 50 failed, but the metrics hold 187 sent
  and a single failure: the statistics returned report 188 messages, not 237.
\<close>

theorem publish_run_undercounts:
  "bind_err (split_batches dataset_237 50) (\<lambda>batches. Inr (map length batches))
     = Inr [50, 50, 50, 50, 37]
   \<and> bind_err (publish_run failing_transport dataset_237 50)
       (\<lambda>(total_success, total_failed, metrics).
          Inr (total_success, total_failed, messages_sent metrics, messages_failed metrics))
     = Inr (187, 50, 187, 1)
   \<and> bind_err (publish_healthcare_data_high_performance failing_transport dataset_237 50)
       (\<lambda>final_stats. dict_index final_stats ''total_messages'')
     = Inr (JInt 188)"
proof -
  have a: "\<And>j m. publish failing_transport (Suc b) j m = Acked" for b
    by (simp add: failing_transport_def)
  have b: "publish failing_transport 0 0 m = PublishRaises" for m
    by (simp add: failing_transport_def)
  have t: "t_end failing_transport = 2" "t_start failing_transport = 1"
    by (simp_all add: failing_transport_def)
  have run: "\<exists>m. publish_run failing_transport dataset_237 50 = Inr (187, 50, m)
      \<and> messages_sent m = 187 \<and> messages_failed m = 1 \<and> start_time m = Some 1
      \<and> end_time m = Some 2 \<and> batch_times m \<noteq> []"
    by (simp add: publish_run_def split_dataset_237 publish_message_batch_raises [OF b]
          publish_message_batch_acked [OF a] record_failure_def record_batch_time_def
          start_publishing_def finish_publishing_def metrics_init_def t)
  then obtain m where m: "publish_run failing_transport dataset_237 50 = Inr (187, 50, m)"
    "messages_sent m = 187" "messages_failed m = 1" "start_time m = Some 1"
    "end_time m = Some 2" "batch_times m \<noteq> []"
    by blast
  have s: "time_set (start_time m)" using m(4) by simp
  from get_stats_total [OF s, of "float_sum failing_transport" 2] m(2,3)
  have "bind_err (get_stats (float_sum failing_transport) 2 m) (\<lambda>final_stats.
          if final_stats = [] then Inl KeyError else Inr final_stats)
        = get_stats (float_sum failing_transport) 2 m \<and>
        bind_err (get_stats (float_sum failing_transport) 2 m)
          (\<lambda>d. dict_index d ''total_messages'') = Inr (JInt 188)"
    by (auto simp: bind_err_def)
  then have "bind_err (publish_healthcare_data_high_performance failing_transport dataset_237 50)
       (\<lambda>final_stats. dict_index final_stats ''total_messages'') = Inr (JInt 188)"
    using m(1) t
    by (simp add: publish_healthcare_data_high_performance_def bind_err_def
          split: sum.splits)
  moreover have "bind_err (split_batches dataset_237 50) (\<lambda>batches. Inr (map length batches))
     = Inr [50, 50, 50, 50, 37]"
    by (simp add: split_dataset_237 bind_err_def)
  moreover have "bind_err (publish_run failing_transport dataset_237 50)
       (\<lambda>(total_success, total_failed, metrics).
          Inr (total_success, total_failed, messages_sent metrics, messages_failed metrics))
     = Inr (187, 50, 187, 1)"
    using m(1-3) by (simp add: bind_err_def)
  ultimately show ?thesis by blast
qed


section \<open>Properties of the dispatcher\<close>

lemma py_lower_kinds:
  "py_lower ''hospital'' = ''hospital''"
  "py_lower ''doctor'' = ''doctor''" "py_lower ''patient'' = ''patient''"
  "py_lower ''diagnosis'' = ''diagnosis''" "py_lower ''medication'' = ''medication''"
  "py_lower ''procedure'' = ''procedure''"
  by code_simp+

text \<open>
  C2, where it fails. An envelope of a known kind that carries no \<^verbatim>\<open>id\<close> makes the handler
  raise \<^verbatim>\<open>KeyError\<close> at \<^verbatim>\<open>data['id']\<close>, before any write: the id that the router computes
  with a generated default is not handed to the handler.
\<close>

theorem known_kind_without_id_raises:
  assumes "map_of message_data ''type'' = Some (JStr t)"
    and "py_lower t \<in> {''hospital'', ''doctor'', ''patient'', ''diagnosis'', ''medication'', ''procedure''}"
    and "map_of message_data ''id'' = None"
  shows "service_process_healthcare_message timestamp uuid g message_data = (Inl KeyError, g)"
  using assms
  by (auto simp: service_process_healthcare_message_def
        create_healthcare_entity_def dict_get_def bind_err_def dict_index_def
        create_hospital_def create_doctor_def create_patient_def create_diagnosis_def
        create_medication_def create_procedure_def)

theorem known_kind_without_id_raises_witness:
  "map_of hospital_no_id ''type'' = Some (JStr ''hospital'')
   \<and> map_of hospital_no_id ''id'' = None
   \<and> service_process_healthcare_message ''2024-01-01T00:00:00'' ''u1'' empty_graph hospital_no_id
       = (Inl KeyError, empty_graph)"
  using known_kind_without_id_raises
          [of hospital_no_id "''hospital''" "''2024-01-01T00:00:00''" "''u1''" empty_graph]
  by (simp add: hospital_no_id_def py_lower_kinds)

text \<open>
  C6. For a decoded envelope: when the handler raises, the dispatcher raises the same
  exception, adds 1 to \<^verbatim>\<open>messages_failed\<close> and the elapsed time to
  \<^verbatim>\<open>total_processing_time\<close>, and leaves \<^verbatim>\<open>messages_processed\<close>,
  \<^verbatim>\<open>relationships_created\<close> and the graph as they were; when the handler returns, the
  dispatcher returns a response, adds 1 to \<^verbatim>\<open>messages_processed\<close>, the elapsed time to
  \<^verbatim>\<open>total_processing_time\<close> and the handler's count to \<^verbatim>\<open>relationships_created\<close>, and
  leaves \<^verbatim>\<open>messages_failed\<close> as it was. The counters are integers; the time is a float,
  and adding to it is the addition of doubles.
\<close>

theorem process_healthcare_message_counters:
  assumes "bind_err (decode_payload c message_data) as_dict = Inr data"
  shows "(create_healthcare_entity timestamp uuid (store st) data = Inl e \<longrightarrow>
            (\<exists>st'. process_healthcare_message c timestamp uuid processing_time st message_data
                     = (Inl e, st')
               \<and> ps_messages_failed (stats st') = ps_messages_failed (stats st) + 1
               \<and> ps_total_processing_time (stats st')
                   = float_add (ps_total_processing_time (stats st)) processing_time
               \<and> ps_messages_processed (stats st') = ps_messages_processed (stats st)
               \<and> ps_relationships_created (stats st') = ps_relationships_created (stats st)
               \<and> store st' = store st))
       \<and> (create_healthcare_entity timestamp uuid (store st) data = Inr (result, g') \<longrightarrow>
            (\<exists>response st'.
                 process_healthcare_message c timestamp uuid processing_time st message_data
                     = (Inr response, st')
               \<and> dict_index response ''relationships_created''
                   = Inr (JInt (int (relationships_created result)))
               \<and> ps_messages_processed (stats st') = ps_messages_processed (stats st) + 1
               \<and> ps_total_processing_time (stats st')
                   = float_add (ps_total_processing_time (stats st)) processing_time
               \<and> ps_relationships_created (stats st')
                   = ps_relationships_created (stats st) + relationships_created result
               \<and> ps_messages_failed (stats st') = ps_messages_failed (stats st)
               \<and> store st' = g'))"
  using assms
  by (simp add: process_healthcare_message_def service_process_healthcare_message_def
        record_failed_def record_processed_def dict_index_def)

lemma create_hospital_h1:
  "create_healthcare_entity ''t1'' ''u1'' empty_graph hospital_h1
     = Inr (\<lparr>entity_id = JStr ''h1'', entity_type = ''Hospital'', relationships_created = 0\<rparr>,
            \<lparr>nodes = [hospital_h1_node], rels = []\<rparr>)"
  by (simp add: create_healthcare_entity_def hospital_h1_def dict_get_def bind_err_def
        py_lower_kinds create_hospital_def dict_index_def merge_node_def hospital_params_def
        param_ok_def empty_graph_def set_props_def set_prop_def hospital_h1_node_def)

lemma decode_examples:
  "bind_err (decode_payload example_codecs
       (WBytes ''{\"type\": \"hospital\", \"id\": \"h1\", \"name\": \"Test\"}'')) as_dict
     = Inr hospital_h1"
  "bind_err (decode_payload example_codecs (WBytes ''{\"type\": \"hospital\"}'')) as_dict
     = Inr hospital_no_id"
  "decode_payload example_codecs (WBytes ''{not json'') = Inl JSONDecodeError"
  by (simp_all add: decode_payload_def example_codecs_def bind_err_def as_dict_def)

theorem process_healthcare_message_counters_witness:
  "bind_err (decode_payload example_codecs (WBytes ''{\"type\": \"hospital\"}'')) as_dict
     = Inr hospital_no_id
   \<and> create_healthcare_entity ''t1'' ''u1'' (store fresh_state) hospital_no_id = Inl KeyError
   \<and> (\<exists>st'. process_healthcare_message example_codecs ''t1'' ''u1'' (1/4) fresh_state
                (WBytes ''{\"type\": \"hospital\"}'') = (Inl KeyError, st')
          \<and> ps_messages_failed (stats st') = 1
          \<and> ps_total_processing_time (stats st') = 1/4
          \<and> ps_messages_processed (stats st') = 0
          \<and> ps_relationships_created (stats st') = 0
          \<and> store st' = empty_graph)
   \<and> bind_err (decode_payload example_codecs
         (WBytes ''{\"type\": \"hospital\", \"id\": \"h1\", \"name\": \"Test\"}'')) as_dict
       = Inr hospital_h1
   \<and> (\<exists>response st'.
          process_healthcare_message example_codecs ''t1'' ''u1'' (1/4) fresh_state
            (WBytes ''{\"type\": \"hospital\", \"id\": \"h1\", \"name\": \"Test\"}'')
            = (Inr response, st')
          \<and> dict_index response ''relationships_created'' = Inr (JInt 0)
          \<and> ps_messages_processed (stats st') = 1
          \<and> ps_total_processing_time (stats st') = 1/4
          \<and> ps_relationships_created (stats st') = 0
          \<and> ps_messages_failed (stats st') = 0
          \<and> store st' = \<lparr>nodes = [hospital_h1_node], rels = []\<rparr>)"
proof -
  have d: "bind_err (decode_payload example_codecs (WBytes ''{\"type\": \"hospital\"}'')) as_dict
     = Inr hospital_no_id"
    by (rule decode_examples)
  have h: "create_healthcare_entity ''t1'' ''u1'' (store fresh_state) hospital_no_id = Inl KeyError"
    by (simp add: create_healthcare_entity_def hospital_no_id_def dict_get_def bind_err_def
          py_lower_kinds create_hospital_def dict_index_def)
  have d2: "bind_err (decode_payload example_codecs
         (WBytes ''{\"type\": \"hospital\", \"id\": \"h1\", \"name\": \"Test\"}'')) as_dict
       = Inr hospital_h1"
    by (rule decode_examples)
  have h2: "create_healthcare_entity ''t1'' ''u1'' (store fresh_state) hospital_h1
     = Inr (\<lparr>entity_id = JStr ''h1'', entity_type = ''Hospital'', relationships_created = 0\<rparr>,
            \<lparr>nodes = [hospital_h1_node], rels = []\<rparr>)"
    using create_hospital_h1 by (simp add: fresh_state_def)
  from process_healthcare_message_counters
         [OF d, of "''t1''" "''u1''" fresh_state KeyError "1/4"] h
  have a: "\<exists>st'. process_healthcare_message example_codecs ''t1'' ''u1'' (1/4) fresh_state
                (WBytes ''{\"type\": \"hospital\"}'') = (Inl KeyError, st')
          \<and> ps_messages_failed (stats st') = 1
          \<and> ps_total_processing_time (stats st') = 1/4
          \<and> ps_messages_processed (stats st') = 0
          \<and> ps_relationships_created (stats st') = 0
          \<and> store st' = empty_graph"
    by (simp add: fresh_state_def float_add_def double_eval)
  from process_healthcare_message_counters
         [OF d2, where timestamp = "''t1''" and uuid = "''u1''" and st = fresh_state
            and processing_time = "1/4"
            and result = "\<lparr>entity_id = JStr ''h1'', entity_type = ''Hospital'',
                             relationships_created = 0\<rparr>"
            and g' = "\<lparr>nodes = [hospital_h1_node], rels = []\<rparr>"] h2
  have b: "\<exists>response st'.
          process_healthcare_message example_codecs ''t1'' ''u1'' (1/4) fresh_state
            (WBytes ''{\"type\": \"hospital\", \"id\": \"h1\", \"name\": \"Test\"}'')
            = (Inr response, st')
          \<and> dict_index response ''relationships_created'' = Inr (JInt 0)
          \<and> ps_messages_processed (stats st') = 1
          \<and> ps_total_processing_time (stats st') = 1/4
          \<and> ps_relationships_created (stats st') = 0
          \<and> ps_messages_failed (stats st') = 0
          \<and> store st' = \<lparr>nodes = [hospital_h1_node], rels = []\<rparr>"
    by (simp add: fresh_state_def float_add_def double_eval)
  from d h a d2 b show ?thesis by blast
qed





section \<open>Properties of the graph write handlers\<close>

lemma is_prim_storable: "is_prim v \<Longrightarrow> storable v"
  by (cases v) simp_all

lemma is_prim_param_ok: "is_prim v \<Longrightarrow> param_ok v"
  by (simp add: param_ok_def is_prim_storable)

lemma flat_map_of: "list_all (\<lambda>kv. is_prim (snd kv)) d \<Longrightarrow> map_of d k = Some v \<Longrightarrow> is_prim v"
  by (induction d) (auto split: if_splits)

lemma flat_dict_get:
  "list_all (\<lambda>kv. is_prim (snd kv)) d \<Longrightarrow> is_prim dflt \<Longrightarrow> is_prim (dict_get d k dflt)"
  by (auto simp: dict_get_def dest: flat_map_of split: option.splits)

lemma merge_rels_nodes: "merge_rels rows t kvs g = Inr g' \<Longrightarrow> nodes g' = nodes g"
  by (induction rows t kvs g rule: merge_rels.induct) (auto split: if_splits)

lemma merge_rels_ok:
  "list_all (\<lambda>kv. storable (snd kv)) kvs \<Longrightarrow> \<exists>g'. merge_rels rows t kvs g = Inr g'"
  by (induction rows t kvs g rule: merge_rels.induct) auto

lemma merge_rels_rels:
  "merge_rels rows t kvs g = Inr g' \<Longrightarrow>
     \<exists>new. rels g' = rels g @ new \<and> (\<forall>r \<in> set new. rtype r = t \<and> (rsrc r, rdst r) \<in> set rows)"
proof (induction rows t kvs g rule: merge_rels.induct)
  case (1 t kvs g)
  then show ?case by simp
next
  case (2 a b rows t kvs g)
  show ?case
  proof (cases "list_ex (rel_has a t kvs b) (rels g)")
    case True
    with "2.prems" "2.IH" show ?thesis by (auto split: if_splits)
  next
    case False
    let ?g1 = "g\<lparr>rels := rels g @ [\<lparr>rsrc = a, rtype = t, rprops = map_of kvs, rdst = b\<rparr>]\<rparr>"
    from "2.prems" False have ok: "list_all (\<lambda>kv. storable (snd kv)) kvs" and m: "merge_rels rows t kvs ?g1 = Inr g'"
      by (auto split: if_splits)
    from "2.IH" m False ok obtain new where
      "rels g' = rels ?g1 @ new" "\<forall>r \<in> set new. rtype r = t \<and> (rsrc r, rdst r) \<in> set rows"
      by auto
    then show ?thesis
      by (intro exI [of _ "\<lparr>rsrc = a, rtype = t, rprops = map_of kvs, rdst = b\<rparr> # new"]) auto
  qed
qed

lemma create_node_result:
  "create_node l kvs g = Inr g' \<Longrightarrow>
     g' = g\<lparr>nodes := nodes g @ [\<lparr>nlabel = l, nprops = set_props kvs Map.empty\<rparr>]\<rparr>"
  by (simp add: create_node_def split: if_splits)

lemma create_node_ok:
  "list_all (\<lambda>kv. param_ok (snd kv)) kvs \<Longrightarrow> \<exists>g'. create_node l kvs g = Inr g'"
  by (simp add: create_node_def)

lemma link_if_merge_result:
  assumes "link_if ref (\<lambda>tx. merge_rels (rows tx) t kvs tx) st = Inr st'"
  shows "nodes (fst st') = nodes (fst st) \<and> snd st' = snd st + (if truthy ref then 1 else 0)"
  using assms
  by (cases st) (auto simp: link_if_def bind_err_def split: if_splits sum.splits
                      dest: merge_rels_nodes)

lemma link_if_merge_ok:
  assumes "list_all (\<lambda>kv. storable (snd kv)) kvs"
  shows "\<exists>st'. link_if ref (\<lambda>tx. merge_rels (rows tx) t kvs tx) st = Inr st'"
proof (cases st)
  case (Pair tx n)
  from merge_rels_ok [OF assms, of "rows tx" t tx] obtain tx2
    where "merge_rels (rows tx) t kvs tx = Inr tx2" by blast
  with Pair show ?thesis by (simp add: link_if_def bind_err_def)
qed

lemma create_diagnosis_result:
  assumes "create_diagnosis ts g data = Inr (r, g')"
  shows "\<exists>i. map_of data ''id'' = Some i \<and> entity_id r = i \<and> entity_type r = ''Diagnosis''
           \<and> nodes g' = nodes g @ [\<lparr>nlabel = ''Diagnosis'',
                                    nprops = set_props (diagnosis_params ts i data) Map.empty\<rparr>]
           \<and> relationships_created r
               = (if truthy (dict_get data ''patient_id'' JNull) then 1 else 0)
                 + (if truthy (dict_get data ''doctor_id'' JNull) then 1 else 0)"
proof -
  from assms obtain i tx1 st2 st3 where
    i: "map_of data ''id'' = Some i"
    and c: "create_node ''Diagnosis'' (diagnosis_params ts i data) g = Inr tx1"
    and l1: "link_if (dict_get data ''patient_id'' JNull)
               (\<lambda>tx. merge_rels (match_rows tx ''Patient'' (dict_get data ''patient_id'' JNull)
                                    ''Diagnosis'' i) ''HAS_DIAGNOSIS'' [] tx) (tx1, 0) = Inr st2"
    and l2: "link_if (dict_get data ''doctor_id'' JNull)
               (\<lambda>tx. merge_rels (match_rows tx ''Doctor'' (dict_get data ''doctor_id'' JNull)
                                    ''Diagnosis'' i) ''DIAGNOSED'' [] tx) st2 = Inr st3"
    and r: "r = \<lparr>entity_id = i, entity_type = ''Diagnosis'', relationships_created = snd st3\<rparr>"
           "g' = fst st3"
    by (auto simp: create_diagnosis_def bind_err_def dict_index_def split: option.splits sum.splits)
  from link_if_merge_result [OF l1] have s2: "nodes (fst st2) = nodes tx1"
      "snd st2 = (if truthy (dict_get data ''patient_id'' JNull) then 1 else 0)"
    by simp_all
  from link_if_merge_result [OF l2] have s3: "nodes (fst st3) = nodes (fst st2)"
      "snd st3 = snd st2 + (if truthy (dict_get data ''doctor_id'' JNull) then 1 else 0)"
    by simp_all
  from create_node_result [OF c] s2 s3 i r show ?thesis by simp
qed

lemma create_diagnosis_ok:
  assumes "list_all (\<lambda>kv. is_prim (snd kv)) data" and "map_of data ''id'' = Some i"
  shows "\<exists>r g'. create_diagnosis ts g data = Inr (r, g')"
proof -
  have "is_prim i" using assms by (rule flat_map_of)
  then have "list_all (\<lambda>kv. param_ok (snd kv)) (diagnosis_params ts i data)"
    using assms(1) by (simp add: diagnosis_params_def is_prim_param_ok flat_dict_get)
  then obtain tx1 where c: "create_node ''Diagnosis'' (diagnosis_params ts i data) g = Inr tx1"
    using create_node_ok by blast
  obtain st2 where l1: "link_if (dict_get data ''patient_id'' JNull)
               (\<lambda>tx. merge_rels (match_rows tx ''Patient'' (dict_get data ''patient_id'' JNull)
                                    ''Diagnosis'' i) ''HAS_DIAGNOSIS'' [] tx) (tx1, 0) = Inr st2"
    using link_if_merge_ok [of "[]"] by (metis list.pred_inject(1))
  obtain st3 where l2: "link_if (dict_get data ''doctor_id'' JNull)
               (\<lambda>tx. merge_rels (match_rows tx ''Doctor'' (dict_get data ''doctor_id'' JNull)
                                    ''Diagnosis'' i) ''DIAGNOSED'' [] tx) st2 = Inr st3"
    using link_if_merge_ok [of "[]"] by (metis list.pred_inject(1))
  show ?thesis
    by (simp add: create_diagnosis_def bind_err_def dict_index_def assms(2) c l1 l2)
qed

lemma create_medication_result:
  assumes "create_medication ts g data = Inr (r, g')"
  shows "\<exists>i. map_of data ''id'' = Some i \<and> entity_id r = i \<and> entity_type r = ''Medication''
           \<and> nodes g' = nodes g @ [\<lparr>nlabel = ''Medication'',
                                    nprops = set_props (medication_params ts i data) Map.empty\<rparr>]
           \<and> relationships_created r
               = (if truthy (dict_get data ''patient_id'' JNull) then 1 else 0)
                 + (if truthy (dict_get data ''prescribing_doctor_id'' JNull) then 1 else 0)"
proof -
  from assms obtain i tx1 st2 st3 where
    i: "map_of data ''id'' = Some i"
    and c: "create_node ''Medication'' (medication_params ts i data) g = Inr tx1"
    and l1: "link_if (dict_get data ''patient_id'' JNull)
               (\<lambda>tx. merge_rels (match_rows tx ''Patient'' (dict_get data ''patient_id'' JNull)
                                    ''Medication'' i) ''PRESCRIBED''
                       [(''prescribed_date'', dict_get data ''prescribed_date'' (JStr []))] tx)
               (tx1, 0) = Inr st2"
    and l2: "link_if (dict_get data ''prescribing_doctor_id'' JNull)
               (\<lambda>tx. merge_rels (match_rows tx ''Doctor''
                                    (dict_get data ''prescribing_doctor_id'' JNull)
                                    ''Medication'' i) ''PRESCRIBED''
                       [(''date'', dict_get data ''prescribed_date'' (JStr []))] tx) st2 = Inr st3"
    and r: "r = \<lparr>entity_id = i, entity_type = ''Medication'', relationships_created = snd st3\<rparr>"
           "g' = fst st3"
    by (auto simp: create_medication_def bind_err_def dict_index_def split: option.splits sum.splits)
  from link_if_merge_result [OF l1] have s2: "nodes (fst st2) = nodes tx1"
      "snd st2 = (if truthy (dict_get data ''patient_id'' JNull) then 1 else 0)"
    by simp_all
  from link_if_merge_result [OF l2] have s3: "nodes (fst st3) = nodes (fst st2)"
      "snd st3 = snd st2 + (if truthy (dict_get data ''prescribing_doctor_id'' JNull) then 1 else 0)"
    by simp_all
  from create_node_result [OF c] s2 s3 i r show ?thesis by simp
qed

lemma create_medication_ok:
  assumes "list_all (\<lambda>kv. is_prim (snd kv)) data" and "map_of data ''id'' = Some i"
  shows "\<exists>r g'. create_medication ts g data = Inr (r, g')"
proof -
  have "is_prim i" using assms by (rule flat_map_of)
  then have "list_all (\<lambda>kv. param_ok (snd kv)) (medication_params ts i data)"
    using assms(1) by (simp add: medication_params_def is_prim_param_ok flat_dict_get)
  then obtain tx1 where c: "create_node ''Medication'' (medication_params ts i data) g = Inr tx1"
    using create_node_ok by blast
  have k: "list_all (\<lambda>kv. storable (snd kv)) [(k, dict_get data ''prescribed_date'' (JStr []))]" for k
    using assms(1) by (simp add: is_prim_storable flat_dict_get)
  obtain st2 where l1: "link_if (dict_get data ''patient_id'' JNull)
               (\<lambda>tx. merge_rels (match_rows tx ''Patient'' (dict_get data ''patient_id'' JNull)
                                    ''Medication'' i) ''PRESCRIBED''
                       [(''prescribed_date'', dict_get data ''prescribed_date'' (JStr []))] tx)
               (tx1, 0) = Inr st2"
    by (rule exE [OF link_if_merge_ok [OF k]])
  obtain st3 where l2: "link_if (dict_get data ''prescribing_doctor_id'' JNull)
               (\<lambda>tx. merge_rels (match_rows tx ''Doctor''
                                    (dict_get data ''prescribing_doctor_id'' JNull)
                                    ''Medication'' i) ''PRESCRIBED''
                       [(''date'', dict_get data ''prescribed_date'' (JStr []))] tx) st2 = Inr st3"
    by (rule exE [OF link_if_merge_ok [OF k]])
  show ?thesis
    by (simp add: create_medication_def bind_err_def dict_index_def assms(2) c l1 l2)
qed

lemma create_procedure_result:
  assumes "create_procedure ts g data = Inr (r, g')"
  shows "\<exists>i. map_of data ''id'' = Some i \<and> entity_id r = i \<and> entity_type r = ''Procedure''
           \<and> nodes g' = nodes g @ [\<lparr>nlabel = ''Procedure'',
                                    nprops = set_props (procedure_params ts i data) Map.empty\<rparr>]
           \<and> relationships_created r
               = (if truthy (dict_get data ''patient_id'' JNull) then 1 else 0)
                 + (if truthy (dict_get data ''performing_doctor_id'' JNull) then 1 else 0)
                 + (if truthy (dict_get data ''hospital_id'' JNull) then 1 else 0)"
proof -
  from assms obtain i tx1 st2 st3 st4 where
    i: "map_of data ''id'' = Some i"
    and c: "create_node ''Procedure'' (procedure_params ts i data) g = Inr tx1"
    and l1: "link_if (dict_get data ''patient_id'' JNull)
               (\<lambda>tx. merge_rels (match_rows tx ''Patient'' (dict_get data ''patient_id'' JNull)
                                    ''Procedure'' i) ''UNDERWENT''
                       [(''date'', dict_get data ''procedure_date'' (JStr [])),
                        (''cost'', dict_get data ''cost'' (JFloat 0))] tx)
               (tx1, 0) = Inr st2"
    and l2: "link_if (dict_get data ''performing_doctor_id'' JNull)
               (\<lambda>tx. merge_rels (match_rows tx ''Doctor''
                                    (dict_get data ''performing_doctor_id'' JNull)
                                    ''Procedure'' i) ''PERFORMED''
                       [(''date'', dict_get data ''procedure_date'' (JStr []))] tx) st2 = Inr st3"
    and l3: "link_if (dict_get data ''hospital_id'' JNull)
               (\<lambda>tx. merge_rels (map prod.swap
                                    (match_rows tx ''Hospital'' (dict_get data ''hospital_id'' JNull)
                                       ''Procedure'' i)) ''PERFORMED_AT'' [] tx) st3 = Inr st4"
    and r: "r = \<lparr>entity_id = i, entity_type = ''Procedure'', relationships_created = snd st4\<rparr>"
           "g' = fst st4"
    by (auto simp: create_procedure_def bind_err_def dict_index_def split: option.splits sum.splits)
  from link_if_merge_result [OF l1] have s2: "nodes (fst st2) = nodes tx1"
      "snd st2 = (if truthy (dict_get data ''patient_id'' JNull) then 1 else 0)"
    by simp_all
  from link_if_merge_result [OF l2] have s3: "nodes (fst st3) = nodes (fst st2)"
      "snd st3 = snd st2 + (if truthy (dict_get data ''performing_doctor_id'' JNull) then 1 else 0)"
    by simp_all
  from link_if_merge_result [OF l3] have s4: "nodes (fst st4) = nodes (fst st3)"
      "snd st4 = snd st3 + (if truthy (dict_get data ''hospital_id'' JNull) then 1 else 0)"
    by simp_all
  from create_node_result [OF c] s2 s3 s4 i r show ?thesis by simp
qed

lemma create_procedure_ok:
  assumes "list_all (\<lambda>kv. is_prim (snd kv)) data" and "map_of data ''id'' = Some i"
  shows "\<exists>r g'. create_procedure ts g data = Inr (r, g')"
proof -
  have "is_prim i" using assms by (rule flat_map_of)
  then have "list_all (\<lambda>kv. param_ok (snd kv)) (procedure_params ts i data)"
    using assms(1) by (simp add: procedure_params_def is_prim_param_ok flat_dict_get)
  then obtain tx1 where c: "create_node ''Procedure'' (procedure_params ts i data) g = Inr tx1"
    using create_node_ok by blast
  have k1: "list_all (\<lambda>kv. storable (snd kv))
              [(''date'', dict_get data ''procedure_date'' (JStr [])),
               (''cost'', dict_get data ''cost'' (JFloat 0))]"
    and k2: "list_all (\<lambda>kv. storable (snd kv)) [(''date'', dict_get data ''procedure_date'' (JStr []))]"
    and k3: "list_all (\<lambda>kv. storable (snd kv)) ([] :: (string \<times> jval) list)"
    using assms(1) by (simp_all add: is_prim_storable flat_dict_get)
  obtain st2 where l1: "link_if (dict_get data ''patient_id'' JNull)
               (\<lambda>tx. merge_rels (match_rows tx ''Patient'' (dict_get data ''patient_id'' JNull)
                                    ''Procedure'' i) ''UNDERWENT''
                       [(''date'', dict_get data ''procedure_date'' (JStr [])),
                        (''cost'', dict_get data ''cost'' (JFloat 0))] tx)
               (tx1, 0) = Inr st2"
    by (rule exE [OF link_if_merge_ok [OF k1]])
  obtain st3 where l2: "link_if (dict_get data ''performing_doctor_id'' JNull)
               (\<lambda>tx. merge_rels (match_rows tx ''Doctor''
                                    (dict_get data ''performing_doctor_id'' JNull)
                                    ''Procedure'' i) ''PERFORMED''
                       [(''date'', dict_get data ''procedure_date'' (JStr []))] tx) st2 = Inr st3"
    by (rule exE [OF link_if_merge_ok [OF k2]])
  obtain st4 where l3: "link_if (dict_get data ''hospital_id'' JNull)
               (\<lambda>tx. merge_rels (map prod.swap
                                    (match_rows tx ''Hospital'' (dict_get data ''hospital_id'' JNull)
                                       ''Procedure'' i)) ''PERFORMED_AT'' [] tx) st3 = Inr st4"
    by (rule exE [OF link_if_merge_ok [OF k3]])
  show ?thesis
    by (simp add: create_procedure_def bind_err_def dict_index_def assms(2) c l1 l2 l3)
qed

lemma event_node_id:
  "set_props (diagnosis_params ts i data) Map.empty ''id'' = (if i = JNull then None else Some i)"
  "set_props (medication_params ts i data) Map.empty ''id'' = (if i = JNull then None else Some i)"
  "set_props (procedure_params ts i data) Map.empty ''id'' = (if i = JNull then None else Some i)"
  by (simp_all add: set_props_def set_prop_def diagnosis_params_def medication_params_def
        procedure_params_def)

lemma route_kind:
  assumes "map_of data ''type'' = Some (JStr t)"
  shows "create_healthcare_entity ts u g data =
           (if py_lower t = ''hospital'' then create_hospital ts g data
            else if py_lower t = ''doctor'' then create_doctor ts g data
            else if py_lower t = ''patient'' then create_patient ts g data
            else if py_lower t = ''diagnosis'' then create_diagnosis ts g data
            else if py_lower t = ''medication'' then create_medication ts g data
            else if py_lower t = ''procedure'' then create_procedure ts g data
            else create_generic_entity ts u g data)"
  by (simp add: create_healthcare_entity_def dict_get_def bind_err_def assms)

lemma event_step:
  assumes "map_of e ''type'' = Some (JStr t)"
    and "py_lower t \<in> {''diagnosis'', ''medication'', ''procedure''}"
    and "map_of e ''id'' = Some i"
    and "create_healthcare_entity ts u g e = Inr (r, g')"
  shows "\<exists>n. nodes g' = nodes g @ [n] \<and> nlabel n = entity_type r
           \<and> nprops n ''id'' = (if i = JNull then None else Some i)"
proof -
  consider "py_lower t = ''diagnosis''" | "py_lower t = ''medication''" | "py_lower t = ''procedure''"
    using assms(2) by auto
  then show ?thesis
  proof cases
    case 1
    with assms(4) have "create_diagnosis ts g e = Inr (r, g')"
      by (simp add: route_kind [OF assms(1)])
    from create_diagnosis_result [OF this] assms(3) show ?thesis
      by (auto simp: event_node_id)
  next
    case 2
    with assms(4) have "create_medication ts g e = Inr (r, g')"
      by (simp add: route_kind [OF assms(1)])
    from create_medication_result [OF this] assms(3) show ?thesis
      by (auto simp: event_node_id)
  next
    case 3
    with assms(4) have "create_procedure ts g e = Inr (r, g')"
      by (simp add: route_kind [OF assms(1)])
    from create_procedure_result [OF this] assms(3) show ?thesis
      by (auto simp: event_node_id)
  qed
qed

lemma event_ok:
  assumes "map_of e ''type'' = Some (JStr t)"
    and "py_lower t \<in> {''diagnosis'', ''medication'', ''procedure''}"
    and "map_of e ''id'' = Some i"
    and "list_all (\<lambda>kv. is_prim (snd kv)) e"
  shows "\<exists>r g'. create_healthcare_entity ts u g e = Inr (r, g')"
proof -
  consider "py_lower t = ''diagnosis''" | "py_lower t = ''medication''" | "py_lower t = ''procedure''"
    using assms(2) by auto
  then show ?thesis
  proof cases
    case 1
    with create_diagnosis_ok [OF assms(4,3), of ts g] show ?thesis
      by (simp add: route_kind [OF assms(1)])
  next
    case 2
    with create_medication_ok [OF assms(4,3), of ts g] show ?thesis
      by (simp add: route_kind [OF assms(1)])
  next
    case 3
    with create_procedure_ok [OF assms(4,3), of ts g] show ?thesis
      by (simp add: route_kind [OF assms(1)])
  qed
qed

text \<open>
  C8. For diagnosis, medication and procedure envelopes: two envelopes with distinct ids,
  ingested one after the other, append two nodes to the graph, each labelled with its kind
  and carrying its envelope's id; nothing is merged. Envelopes whose fields are all JSON
  scalars are always ingested.
\<close>

theorem clinical_events_create_distinct_nodes:
  assumes "map_of e1 ''type'' = Some (JStr t1)" and "map_of e2 ''type'' = Some (JStr t2)"
    and "py_lower t1 \<in> {''diagnosis'', ''medication'', ''procedure''}"
    and "py_lower t2 \<in> {''diagnosis'', ''medication'', ''procedure''}"
    and "map_of e1 ''id'' = Some i1" and "map_of e2 ''id'' = Some i2" and "i1 \<noteq> i2"
  shows "(list_all (\<lambda>kv. is_prim (snd kv)) e1 \<and> list_all (\<lambda>kv. is_prim (snd kv)) e2 \<longrightarrow>
            (\<exists>r1 g1 r2 g2. create_healthcare_entity ts1 u1 g e1 = Inr (r1, g1)
                          \<and> create_healthcare_entity ts2 u2 g1 e2 = Inr (r2, g2)))
       \<and> (create_healthcare_entity ts1 u1 g e1 = Inr (r1', g1')
            \<and> create_healthcare_entity ts2 u2 g1' e2 = Inr (r2', g2') \<longrightarrow>
            (\<exists>n1 n2. nodes g2' = nodes g @ [n1, n2] \<and> n1 \<noteq> n2
               \<and> nlabel n1 = entity_type r1' \<and> nlabel n2 = entity_type r2'
               \<and> nprops n1 ''id'' = (if i1 = JNull then None else Some i1)
               \<and> nprops n2 ''id'' = (if i2 = JNull then None else Some i2)))"
proof (intro conjI impI)
  assume f: "list_all (\<lambda>kv. is_prim (snd kv)) e1 \<and> list_all (\<lambda>kv. is_prim (snd kv)) e2"
  from event_ok [OF assms(1,3,5), of ts1 u1 g] f obtain r1 g1
    where a: "create_healthcare_entity ts1 u1 g e1 = Inr (r1, g1)" by blast
  from event_ok [OF assms(2,4,6), of ts2 u2 g1] f obtain r2 g2
    where b: "create_healthcare_entity ts2 u2 g1 e2 = Inr (r2, g2)" by blast
  from a b show "\<exists>r1 g1 r2 g2. create_healthcare_entity ts1 u1 g e1 = Inr (r1, g1)
                          \<and> create_healthcare_entity ts2 u2 g1 e2 = Inr (r2, g2)"
    by blast
next
  assume s: "create_healthcare_entity ts1 u1 g e1 = Inr (r1', g1')
            \<and> create_healthcare_entity ts2 u2 g1' e2 = Inr (r2', g2')"
  from event_step [OF assms(1,3,5)] s obtain n1 where
    n1: "nodes g1' = nodes g @ [n1]" "nlabel n1 = entity_type r1'"
        "nprops n1 ''id'' = (if i1 = JNull then None else Some i1)"
    by blast
  from event_step [OF assms(2,4,6)] s obtain n2 where
    n2: "nodes g2' = nodes g1' @ [n2]" "nlabel n2 = entity_type r2'"
        "nprops n2 ''id'' = (if i2 = JNull then None else Some i2)"
    by blast
  from n1(3) n2(3) assms(7) have "n1 \<noteq> n2" by (auto split: if_splits)
  with n1 n2 show "\<exists>n1 n2. nodes g2' = nodes g @ [n1, n2] \<and> n1 \<noteq> n2
               \<and> nlabel n1 = entity_type r1' \<and> nlabel n2 = entity_type r2'
               \<and> nprops n1 ''id'' = (if i1 = JNull then None else Some i1)
               \<and> nprops n2 ''id'' = (if i2 = JNull then None else Some i2)"
    by auto
qed

lemma match_nodes_snoc:
  "match_nodes (g\<lparr>nodes := nodes g @ [n]\<rparr>) l v
     = match_nodes g l v @ (if node_has l v n then [length (nodes g)] else [])"
proof -
  have "filter (\<lambda>i. node_has l v ((nodes g @ [n]) ! i)) [0..<length (nodes g)]
        = filter (\<lambda>i. node_has l v (nodes g ! i)) [0..<length (nodes g)]"
    by (rule filter_cong) (auto simp: nth_append)
  then show ?thesis by (simp add: match_nodes_def)
qed

lemmas store_eval =
  create_healthcare_entity_def dict_get_def bind_err_def py_lower_kinds dict_index_def
  merge_node_def create_node_def merge_rels.simps match_rows_def match_nodes_def node_has_def
  rel_has_def link_if_def param_ok_def set_props_def set_prop_def

lemma ingest_doctor_p1:
  "create_healthcare_entity ''t2'' ''u2'' graph_h1 doctor_p1
     = Inr (\<lparr>entity_id = JStr ''p1'', entity_type = ''Doctor'', relationships_created = 1\<rparr>,
            graph_h1_p1)"
  by (simp add: store_eval create_doctor_def doctor_params_def doctor_p1_def graph_h1_def
        graph_h1_p1_def hospital_h1_node_def doctor_p1_node_def)

lemma ingest_diagnosis_d1:
  "create_healthcare_entity ''t3'' ''u3'' graph_h1_p1 diagnosis_d1
     = Inr (\<lparr>entity_id = JStr ''d1'', entity_type = ''Diagnosis'', relationships_created = 2\<rparr>,
            graph_h1_p1_d1)"
  by (simp add: store_eval create_diagnosis_def diagnosis_params_def diagnosis_d1_def
        graph_h1_p1_def graph_h1_p1_d1_def hospital_h1_node_def doctor_p1_node_def
        diagnosis_node_def)

text \<open>
  C1, as amended. A diagnosis envelope whose \<^verbatim>\<open>patient_id\<close> names a patient that is not in
  the graph and whose \<^verbatim>\<open>doctor_id\<close> is present is processed without an exception: exactly
  one \<^verbatim>\<open>Diagnosis\<close> node is appended, the patient statement writes nothing, every
  relationship written is a \<^verbatim>\<open>DIAGNOSED\<close> one, and the handler returns
  \<^verbatim>\<open>relationships_created == 2\<close>: it counts the statements it ran, not the edges written.
\<close>

theorem diagnosis_counts_attempted_edges:
  assumes "map_of data ''type'' = Some (JStr t)" and "py_lower t = ''diagnosis''"
    and "map_of data ''id'' = Some i"
    and "map_of data ''patient_id'' = Some pv" and "truthy pv"
    and "map_of data ''doctor_id'' = Some dv" and "truthy dv"
    and "list_all (\<lambda>kv. param_ok (snd kv)) (diagnosis_params timestamp i data)"
    and "match_nodes g ''Patient'' pv = []"
  shows "\<exists>g' new.
           create_healthcare_entity timestamp uuid g data
             = Inr (\<lparr>entity_id = i, entity_type = ''Diagnosis'', relationships_created = 2\<rparr>, g')
         \<and> nodes g' = nodes g @ [\<lparr>nlabel = ''Diagnosis'',
                                  nprops = set_props (diagnosis_params timestamp i data) Map.empty\<rparr>]
         \<and> rels g' = rels g @ new
         \<and> (\<forall>r \<in> set new. rtype r = ''DIAGNOSED'')"
proof -
  let ?n = "\<lparr>nlabel = ''Diagnosis'',
             nprops = set_props (diagnosis_params timestamp i data) Map.empty\<rparr>"
  let ?tx1 = "g\<lparr>nodes := nodes g @ [?n]\<rparr>"
  have c: "create_node ''Diagnosis'' (diagnosis_params timestamp i data) g = Inr ?tx1"
    using assms(8) by (simp add: create_node_def)
  have "match_nodes ?tx1 ''Patient'' pv = []"
    using assms(9) by (simp add: match_nodes_snoc node_has_def)
  then have l1: "link_if pv (\<lambda>tx. merge_rels (match_rows tx ''Patient'' pv ''Diagnosis'' i)
                                 ''HAS_DIAGNOSIS'' [] tx) (?tx1, 0) = Inr (?tx1, 1)"
    using assms(5) by (simp add: link_if_def match_rows_def bind_err_def)
  obtain g' where m: "merge_rels (match_rows ?tx1 ''Doctor'' dv ''Diagnosis'' i) ''DIAGNOSED'' [] ?tx1
                        = Inr g'"
    using merge_rels_ok [of "[]"] by fastforce
  then have l2: "link_if dv (\<lambda>tx. merge_rels (match_rows tx ''Doctor'' dv ''Diagnosis'' i)
                                 ''DIAGNOSED'' [] tx) (?tx1, 1) = Inr (g', 2)"
    using assms(7) by (simp add: link_if_def bind_err_def)
  from merge_rels_rels [OF m] obtain new where
    new: "rels g' = rels g @ new" "\<forall>r \<in> set new. rtype r = ''DIAGNOSED''"
    by auto
  have "create_healthcare_entity timestamp uuid g data
          = Inr (\<lparr>entity_id = i, entity_type = ''Diagnosis'', relationships_created = 2\<rparr>, g')"
    using assms(2,3,4,6) c l1 l2
    by (simp add: route_kind [OF assms(1)] create_diagnosis_def bind_err_def dict_index_def
          dict_get_def)
  moreover have "nodes g' = nodes g @ [?n]"
    using merge_rels_nodes [OF m] by simp
  ultimately show ?thesis using new by blast
qed

theorem diagnosis_counts_attempted_edges_witness:
  "map_of diagnosis_d1 ''type'' = Some (JStr ''diagnosis'') \<and> py_lower ''diagnosis'' = ''diagnosis''
   \<and> map_of diagnosis_d1 ''id'' = Some (JStr ''d1'')
   \<and> map_of diagnosis_d1 ''patient_id'' = Some (JStr ''missing'') \<and> truthy (JStr ''missing'')
   \<and> map_of diagnosis_d1 ''doctor_id'' = Some (JStr ''p1'') \<and> truthy (JStr ''p1'')
   \<and> list_all (\<lambda>kv. param_ok (snd kv)) (diagnosis_params ''t3'' (JStr ''d1'') diagnosis_d1)
   \<and> match_nodes graph_h1_p1 ''Patient'' (JStr ''missing'') = []
   \<and> (\<exists>g' new.
         create_healthcare_entity ''t3'' ''u3'' graph_h1_p1 diagnosis_d1
           = Inr (\<lparr>entity_id = JStr ''d1'', entity_type = ''Diagnosis'',
                   relationships_created = 2\<rparr>, g')
         \<and> nodes g' = nodes graph_h1_p1 @ [diagnosis_node ''d1'' ''t3'']
         \<and> rels g' = rels graph_h1_p1 @ new
         \<and> (\<forall>r \<in> set new. rtype r = ''DIAGNOSED''))"
proof -
  have h: "map_of diagnosis_d1 ''type'' = Some (JStr ''diagnosis'')"
      "py_lower ''diagnosis'' = ''diagnosis''"
      "map_of diagnosis_d1 ''id'' = Some (JStr ''d1'')"
      "map_of diagnosis_d1 ''patient_id'' = Some (JStr ''missing'')" "truthy (JStr ''missing'')"
      "map_of diagnosis_d1 ''doctor_id'' = Some (JStr ''p1'')" "truthy (JStr ''p1'')"
      "list_all (\<lambda>kv. param_ok (snd kv)) (diagnosis_params ''t3'' (JStr ''d1'') diagnosis_d1)"
      "match_nodes graph_h1_p1 ''Patient'' (JStr ''missing'') = []"
    by (simp_all add: diagnosis_d1_def py_lower_kinds diagnosis_params_def dict_get_def
          param_ok_def match_nodes_def node_has_def graph_h1_p1_def hospital_h1_node_def
          doctor_p1_node_def)
  have n: "\<lparr>nlabel = ''Diagnosis'',
            nprops = set_props (diagnosis_params ''t3'' (JStr ''d1'') diagnosis_d1) Map.empty\<rparr>
           = diagnosis_node ''d1'' ''t3''"
    by (simp add: diagnosis_node_def diagnosis_params_def diagnosis_d1_def dict_get_def
          set_props_def set_prop_def)
  from diagnosis_counts_attempted_edges [OF h, of "''u3''"] n h show ?thesis by simp
qed

text \<open>
  C1 as stated fails on the scenario of the specification: after a hospital \<open>h1\<close> and a
  doctor \<open>p1\<close> working there, the diagnosis \<open>d1\<close> with \<^verbatim>\<open>patient_id = "missing"\<close> and
  \<^verbatim>\<open>doctor_id = "p1"\<close> creates one node and one \<^verbatim>\<open>DIAGNOSED\<close> relationship, and the handler
  returns 2, not 1.
\<close>

theorem diagnosis_relationships_counterexample:
  "service_process_healthcare_message ''t1'' ''u1'' empty_graph hospital_h1
     = (Inr \<lparr>entity_id = JStr ''h1'', entity_type = ''Hospital'', relationships_created = 0\<rparr>,
        graph_h1)
   \<and> service_process_healthcare_message ''t2'' ''u2'' graph_h1 doctor_p1
     = (Inr \<lparr>entity_id = JStr ''p1'', entity_type = ''Doctor'', relationships_created = 1\<rparr>,
        graph_h1_p1)
   \<and> service_process_healthcare_message ''t3'' ''u3'' graph_h1_p1 diagnosis_d1
     = (Inr \<lparr>entity_id = JStr ''d1'', entity_type = ''Diagnosis'', relationships_created = 2\<rparr>,
        graph_h1_p1_d1)
   \<and> fst (service_process_healthcare_message ''t3'' ''u3'' graph_h1_p1 diagnosis_d1)
     \<noteq> Inr \<lparr>entity_id = JStr ''d1'', entity_type = ''Diagnosis'', relationships_created = 1\<rparr>"
  using create_hospital_h1 ingest_doctor_p1 ingest_diagnosis_d1
  by (simp add: service_process_healthcare_message_def graph_h1_def)

theorem clinical_events_create_distinct_nodes_witness:
  "map_of diagnosis_d1 ''type'' = Some (JStr ''diagnosis'')
   \<and> map_of diagnosis_d2 ''type'' = Some (JStr ''diagnosis'')
   \<and> py_lower ''diagnosis'' \<in> {''diagnosis'', ''medication'', ''procedure''}
   \<and> map_of diagnosis_d1 ''id'' = Some (JStr ''d1'') \<and> map_of diagnosis_d2 ''id'' = Some (JStr ''d2'')
   \<and> JStr ''d1'' \<noteq> JStr ''d2''
   \<and> filter (\<lambda>kv. fst kv \<noteq> ''id'') diagnosis_d1 = filter (\<lambda>kv. fst kv \<noteq> ''id'') diagnosis_d2
   \<and> list_all (\<lambda>kv. is_prim (snd kv)) diagnosis_d1 \<and> list_all (\<lambda>kv. is_prim (snd kv)) diagnosis_d2
   \<and> (\<exists>r1 g1 r2 g2.
         create_healthcare_entity ''t3'' ''u3'' graph_h1_p1 diagnosis_d1 = Inr (r1, g1)
         \<and> create_healthcare_entity ''t3'' ''u4'' g1 diagnosis_d2 = Inr (r2, g2)
         \<and> (\<exists>n1 n2. nodes g2 = nodes graph_h1_p1 @ [n1, n2] \<and> n1 \<noteq> n2
               \<and> nlabel n1 = ''Diagnosis'' \<and> nlabel n2 = ''Diagnosis''
               \<and> nprops n1 ''id'' = Some (JStr ''d1'') \<and> nprops n2 ''id'' = Some (JStr ''d2'')))"
proof -
  have h: "map_of diagnosis_d1 ''type'' = Some (JStr ''diagnosis'')"
      "map_of diagnosis_d2 ''type'' = Some (JStr ''diagnosis'')"
      "py_lower ''diagnosis'' \<in> {''diagnosis'', ''medication'', ''procedure''}"
      "py_lower ''diagnosis'' \<in> {''diagnosis'', ''medication'', ''procedure''}"
      "map_of diagnosis_d1 ''id'' = Some (JStr ''d1'')" "map_of diagnosis_d2 ''id'' = Some (JStr ''d2'')"
      "JStr ''d1'' \<noteq> JStr ''d2''"
    by (simp_all add: diagnosis_d1_def diagnosis_d2_def py_lower_kinds)
  have f: "list_all (\<lambda>kv. is_prim (snd kv)) diagnosis_d1"
      "list_all (\<lambda>kv. is_prim (snd kv)) diagnosis_d2"
      "filter (\<lambda>kv. fst kv \<noteq> ''id'') diagnosis_d1 = filter (\<lambda>kv. fst kv \<noteq> ''id'') diagnosis_d2"
    by (simp_all add: diagnosis_d1_def diagnosis_d2_def)
  note t = clinical_events_create_distinct_nodes [OF h, of "''t3''" "''u3''" graph_h1_p1 "''t3''" "''u4''"]
  from t f obtain r1 g1 r2 g2 where
    s: "create_healthcare_entity ''t3'' ''u3'' graph_h1_p1 diagnosis_d1 = Inr (r1, g1)"
       "create_healthcare_entity ''t3'' ''u4'' g1 diagnosis_d2 = Inr (r2, g2)"
    by blast
  from s(1) have r1: "entity_type r1 = ''Diagnosis''"
    using ingest_diagnosis_d1 by auto
  from s(2) have r2: "entity_type r2 = ''Diagnosis''"
    using create_diagnosis_result [of "''t3''" g1 diagnosis_d2 r2 g2]
    by (simp add: route_kind [OF h(2)] py_lower_kinds)
  from t [of r1 g1 r2 g2] s r1 r2 have
    "\<exists>n1 n2. nodes g2 = nodes graph_h1_p1 @ [n1, n2] \<and> n1 \<noteq> n2
               \<and> nlabel n1 = ''Diagnosis'' \<and> nlabel n2 = ''Diagnosis''
               \<and> nprops n1 ''id'' = Some (JStr ''d1'') \<and> nprops n2 ''id'' = Some (JStr ''d2'')"
    by simp
  with s h f show ?thesis by blast
qed


section \<open>Properties of the statistics\<close>












section \<open>Properties of the upserts\<close>

lemma prim_eq_refl: "is_prim v \<Longrightarrow> prim_eq v v"
  by (cases v) simp_all

lemma same_kind_prim: "same_kind x y \<Longrightarrow> is_prim y"
  by (cases x; cases y) simp_all

lemma cy_eq_refl: "storable v \<Longrightarrow> cy_eq v v"
proof (cases v)
  case (JList xs)
  assume s: "storable v"
  have "\<forall>y \<in> set xs. is_prim y"
  proof (cases xs)
    case Nil
    then show ?thesis by simp
  next
    case (Cons x ys)
    with s JList show ?thesis by (auto simp: list_all_iff dest: same_kind_prim)
  qed
  then have "list_all2 prim_eq xs xs"
    by (simp add: list_all2_same prim_eq_refl)
  with JList show ?thesis by simp
qed (simp_all add: prim_eq_refl)

lemma set_prop_other: "k \<noteq> fst kv \<Longrightarrow> set_prop kv p k = p k"
  by (simp add: set_prop_def)

lemma set_props_other: "k \<notin> fst ` set kvs \<Longrightarrow> set_props kvs p k = p k"
  unfolding set_props_def
  by (induction kvs arbitrary: p) (auto simp: set_prop_other)

lemma set_props_lookup:
  "distinct (map fst kvs) \<Longrightarrow> kv \<in> set kvs \<Longrightarrow>
     set_props kvs p (fst kv) = (if snd kv = JNull then None else Some (snd kv))"
  unfolding set_props_def
proof (induction kvs arbitrary: p)
  case Nil
  then show ?case by simp
next
  case (Cons a kvs)
  show ?case
  proof (cases "kv = a")
    case True
    with Cons.prems have "fst kv \<notin> fst ` set kvs" by auto
    then have "fold set_prop kvs (set_prop a p) (fst kv) = set_prop a p (fst kv)"
      using set_props_other [unfolded set_props_def] by blast
    moreover have "set_prop a p (fst a) = (if snd a = JNull then None else Some (snd a))"
      by (simp add: set_prop_def)
    ultimately show ?thesis using True by simp
  next
    case False
    with Cons show ?thesis by auto
  qed
qed

lemma set_props_fixed:
  assumes "distinct (map fst kvs)"
    and "\<forall>kv \<in> set kvs. p (fst kv) = (if snd kv = JNull then None else Some (snd kv))"
  shows "set_props kvs p = p"
proof
  fix k
  show "set_props kvs p k = p k"
  proof (cases "k \<in> fst ` set kvs")
    case True
    then obtain kv where "kv \<in> set kvs" "k = fst kv" by auto
    with assms set_props_lookup [OF assms(1), of kv p] show ?thesis by simp
  next
    case False
    then show ?thesis by (rule set_props_other)
  qed
qed

lemma node_has_set_props:
  "''id'' \<notin> fst ` set kvs \<Longrightarrow>
     node_has l v (n\<lparr>nprops := set_props kvs (nprops n)\<rparr>) = node_has l v n"
  by (simp add: node_has_def set_props_other)

lemma match_nodes_length:
  "length (match_nodes g l v) = length (filter (node_has l v) (nodes g))"
proof -
  have "filter (node_has l v) (map (nth (nodes g)) [0..<length (nodes g)])
          = map (nth (nodes g)) (match_nodes g l v)"
    by (simp add: match_nodes_def filter_map comp_def)
  then show ?thesis by (metis length_map map_nth)
qed

lemma match_nodes_set:
  "i \<in> set (match_nodes g l v) \<longleftrightarrow> i < length (nodes g) \<and> node_has l v (nodes g ! i)"
  by (auto simp: match_nodes_def)

text \<open>What a successful \<open>merge_node\<close> does to the node list.\<close>

lemma merge_node_cases:
  assumes "merge_node l v kvs g = Inr g'"
  shows "storable v \<and> rels g' = rels g \<and>
         (if list_ex (node_has l v) (nodes g)
          then nodes g' = map (\<lambda>n. if node_has l v n
                                     then n\<lparr>nprops := set_props kvs (nprops n)\<rparr> else n) (nodes g)
          else nodes g' = nodes g @ [\<lparr>nlabel = l, nprops = set_props kvs [''id'' \<mapsto> v]\<rparr>])"
  using assms by (auto simp: merge_node_def split: if_splits)

lemma merge_node_ok:
  "storable v \<Longrightarrow> list_all (\<lambda>kv. param_ok (snd kv)) kvs \<Longrightarrow> \<exists>g'. merge_node l v kvs g = Inr g'"
  by (simp add: merge_node_def)

lemma merge_node_count:
  assumes "merge_node l v kvs g = Inr g'" and "''id'' \<notin> fst ` set kvs"
  shows "length (filter (node_has l v) (nodes g'))
           = max 1 (length (filter (node_has l v) (nodes g)))"
proof (cases "list_ex (node_has l v) (nodes g)")
  case True
  with merge_node_cases [OF assms(1)] have
    n: "nodes g' = map (\<lambda>n. if node_has l v n
                             then n\<lparr>nprops := set_props kvs (nprops n)\<rparr> else n) (nodes g)"
    by simp
  have "filter (node_has l v) (nodes g')
          = map (\<lambda>n. n\<lparr>nprops := set_props kvs (nprops n)\<rparr>) (filter (node_has l v) (nodes g))"
    unfolding n
    by (induction "nodes g" arbitrary: g) (auto simp: filter_map comp_def node_has_set_props [OF assms(2)]
          intro!: filter_cong map_cong)
  moreover from True have "0 < length (filter (node_has l v) (nodes g))"
    by (auto simp: list_ex_iff filter_empty_conv)
  ultimately show ?thesis
    by (cases "filter (node_has l v) (nodes g)") (simp_all add: max_def)
next
  case False
  with merge_node_cases [OF assms(1)] have
    n: "nodes g' = nodes g @ [\<lparr>nlabel = l, nprops = set_props kvs [''id'' \<mapsto> v]\<rparr>]"
    and s: "storable v"
    by simp_all
  from False have e: "filter (node_has l v) (nodes g) = []"
    by (auto simp: list_ex_iff filter_empty_conv)
  have "node_has l v \<lparr>nlabel = l, nprops = set_props kvs [''id'' \<mapsto> v]\<rparr>"
    using assms(2) s by (simp add: node_has_def set_props_other cy_eq_refl)
  with n e show ?thesis by simp
qed

lemma merge_node_props:
  assumes "merge_node l v kvs g = Inr g'" and "''id'' \<notin> fst ` set kvs"
    and "distinct (map fst kvs)"
  shows "\<forall>n \<in> set (nodes g'). node_has l v n \<longrightarrow>
           (\<forall>kv \<in> set kvs. nprops n (fst kv) = (if snd kv = JNull then None else Some (snd kv)))"
proof (intro ballI impI)
  fix n kv
  assume n: "n \<in> set (nodes g')" and h: "node_has l v n" and kv: "kv \<in> set kvs"
  have up: "nprops (m\<lparr>nprops := set_props kvs p\<rparr>) (fst kv)
              = (if snd kv = JNull then None else Some (snd kv))" for m :: gnode and p
    using set_props_lookup [OF assms(3) kv] by simp
  show "nprops n (fst kv) = (if snd kv = JNull then None else Some (snd kv))"
  proof (cases "list_ex (node_has l v) (nodes g)")
    case True
    with merge_node_cases [OF assms(1)] n obtain m where
      m: "m \<in> set (nodes g)"
         "n = (if node_has l v m then m\<lparr>nprops := set_props kvs (nprops m)\<rparr> else m)"
      by auto
    show ?thesis
    proof (cases "node_has l v m")
      case True
      with m up show ?thesis by simp
    next
      case False
      with m h show ?thesis by simp
    qed
  next
    case False
    with merge_node_cases [OF assms(1)] n have
      "n \<in> set (nodes g) \<or> n = \<lparr>nlabel = l, nprops = set_props kvs [''id'' \<mapsto> v]\<rparr>"
      by auto
    moreover from False h have "n \<notin> set (nodes g)" by (auto simp: list_ex_iff)
    ultimately show ?thesis using up by auto
  qed
qed

lemma merge_node_shape:
  assumes "merge_node l v kvs g = Inr g'" and "list_ex (node_has l v) (nodes g)"
  shows "length (nodes g') = length (nodes g) \<and> map nlabel (nodes g') = map nlabel (nodes g)"
  using merge_node_cases [OF assms(1)] assms(2) by (simp add: comp_def)

lemma merge_node_exists:
  assumes "merge_node l v kvs g = Inr g'" and "''id'' \<notin> fst ` set kvs"
  shows "list_ex (node_has l v) (nodes g')"
proof -
  from merge_node_count [OF assms] have "filter (node_has l v) (nodes g') \<noteq> []"
    by (auto simp: max_def split: if_splits)
  then show ?thesis by (auto simp: list_ex_iff filter_empty_conv)
qed

lemma merge_node_again:
  assumes "merge_node l v kvs g = Inr g'" and "distinct (map fst kvs)"
    and "list_ex (node_has l v) (nodes g)"
    and "\<forall>n \<in> set (nodes g). node_has l v n \<longrightarrow>
           (\<forall>kv \<in> set kvs. nprops n (fst kv) = (if snd kv = JNull then None else Some (snd kv)))"
  shows "nodes g' = nodes g"
proof -
  have "(if node_has l v n then n\<lparr>nprops := set_props kvs (nprops n)\<rparr> else n) = n"
    if "n \<in> set (nodes g)" for n
    using that assms(4) set_props_fixed [OF assms(2), of "nprops n"] by auto
  then have "map (\<lambda>n. if node_has l v n then n\<lparr>nprops := set_props kvs (nprops n)\<rparr> else n) (nodes g)
               = nodes g"
    by (simp add: map_idI)
  with merge_node_cases [OF assms(1)] assms(3) show ?thesis by simp
qed

lemma params_keys:
  "''id'' \<notin> fst ` set (hospital_params ts data)" "distinct (map fst (hospital_params ts data))"
  "''id'' \<notin> fst ` set (doctor_params ts data)" "distinct (map fst (doctor_params ts data))"
  "''id'' \<notin> fst ` set (patient_params ts data)" "distinct (map fst (patient_params ts data))"
  by (simp_all add: hospital_params_def doctor_params_def patient_params_def)

lemma create_hospital_result:
  assumes "create_hospital ts g data = Inr (r, g')"
  shows "\<exists>i tx1. map_of data ''id'' = Some i \<and> entity_id r = i \<and> entity_type r = ''Hospital''
           \<and> merge_node ''Hospital'' i (hospital_params ts data) g = Inr tx1
           \<and> nodes g' = nodes tx1"
  using assms
  by (auto simp: create_hospital_def bind_err_def dict_index_def split: option.splits sum.splits)

lemma create_doctor_result:
  assumes "create_doctor ts g data = Inr (r, g')"
  shows "\<exists>i tx1. map_of data ''id'' = Some i \<and> entity_id r = i \<and> entity_type r = ''Doctor''
           \<and> merge_node ''Doctor'' i (doctor_params ts data) g = Inr tx1
           \<and> nodes g' = nodes tx1
           \<and> relationships_created r = (if truthy (dict_get data ''hospital_id'' JNull) then 1 else 0)"
proof -
  from assms obtain i tx1 st2 where
    i: "map_of data ''id'' = Some i"
    and m: "merge_node ''Doctor'' i (doctor_params ts data) g = Inr tx1"
    and l: "link_if (dict_get data ''hospital_id'' JNull)
              (\<lambda>tx. merge_rels (match_rows tx ''Doctor'' i ''Hospital''
                                   (dict_get data ''hospital_id'' JNull)) ''WORKS_AT'' [] tx)
              (tx1, 0) = Inr st2"
    and r: "r = \<lparr>entity_id = i, entity_type = ''Doctor'', relationships_created = snd st2\<rparr>"
           "g' = fst st2"
    by (auto simp: create_doctor_def bind_err_def dict_index_def split: option.splits sum.splits)
  from link_if_merge_result [OF l] i m r show ?thesis by simp
qed

lemma create_patient_result:
  assumes "create_patient ts g data = Inr (r, g')"
  shows "\<exists>i tx1. map_of data ''id'' = Some i \<and> entity_id r = i \<and> entity_type r = ''Patient''
           \<and> merge_node ''Patient'' i (patient_params ts data) g = Inr tx1
           \<and> nodes g' = nodes tx1
           \<and> relationships_created r
               = (if truthy (dict_get data ''primary_care_doctor'' JNull) then 1 else 0)"
proof -
  from assms obtain i tx1 st2 where
    i: "map_of data ''id'' = Some i"
    and m: "merge_node ''Patient'' i (patient_params ts data) g = Inr tx1"
    and l: "link_if (dict_get data ''primary_care_doctor'' JNull)
              (\<lambda>tx. merge_rels (match_rows tx ''Patient'' i ''Doctor''
                                   (dict_get data ''primary_care_doctor'' JNull))
                      ''HAS_PRIMARY_CARE_DOCTOR'' [] tx)
              (tx1, 0) = Inr st2"
    and r: "r = \<lparr>entity_id = i, entity_type = ''Patient'', relationships_created = snd st2\<rparr>"
           "g' = fst st2"
    by (auto simp: create_patient_def bind_err_def dict_index_def split: option.splits sum.splits)
  from link_if_merge_result [OF l] i m r show ?thesis by simp
qed

lemma create_reference_ok:
  assumes "list_all (\<lambda>kv. is_prim (snd kv)) data" and "map_of data ''id'' = Some i"
  shows "\<exists>r g'. create_hospital ts g data = Inr (r, g')"
    and "\<exists>r g'. create_doctor ts g data = Inr (r, g')"
    and "\<exists>r g'. create_patient ts g data = Inr (r, g')"
proof -
  have i: "is_prim i" using assms by (rule flat_map_of)
  have k: "list_all (\<lambda>kv. storable (snd kv)) ([] :: (string \<times> jval) list)" by simp
  have "list_all (\<lambda>kv. param_ok (snd kv)) (hospital_params ts data)"
    using assms(1) by (simp add: hospital_params_def is_prim_param_ok flat_dict_get)
  from merge_node_ok [OF is_prim_storable [OF i] this] obtain tx1
    where "merge_node ''Hospital'' i (hospital_params ts data) g = Inr tx1" by blast
  then show "\<exists>r g'. create_hospital ts g data = Inr (r, g')"
    by (simp add: create_hospital_def bind_err_def dict_index_def assms(2))
  have "list_all (\<lambda>kv. param_ok (snd kv)) (doctor_params ts data)"
    using assms(1) by (simp add: doctor_params_def is_prim_param_ok flat_dict_get)
  from merge_node_ok [OF is_prim_storable [OF i] this] obtain tx2
    where m: "merge_node ''Doctor'' i (doctor_params ts data) g = Inr tx2" by blast
  obtain st2 where "link_if (dict_get data ''hospital_id'' JNull)
              (\<lambda>tx. merge_rels (match_rows tx ''Doctor'' i ''Hospital''
                                   (dict_get data ''hospital_id'' JNull)) ''WORKS_AT'' [] tx)
              (tx2, 0) = Inr st2"
    by (rule exE [OF link_if_merge_ok [OF k]])
  with m show "\<exists>r g'. create_doctor ts g data = Inr (r, g')"
    by (simp add: create_doctor_def bind_err_def dict_index_def assms(2))
  have "list_all (\<lambda>kv. param_ok (snd kv)) (patient_params ts data)"
    using assms(1) by (simp add: patient_params_def is_prim_param_ok flat_dict_get)
  from merge_node_ok [OF is_prim_storable [OF i] this] obtain tx3
    where m: "merge_node ''Patient'' i (patient_params ts data) g = Inr tx3" by blast
  obtain st3 where "link_if (dict_get data ''primary_care_doctor'' JNull)
              (\<lambda>tx. merge_rels (match_rows tx ''Patient'' i ''Doctor''
                                   (dict_get data ''primary_care_doctor'' JNull))
                      ''HAS_PRIMARY_CARE_DOCTOR'' [] tx)
              (tx3, 0) = Inr st3"
    by (rule exE [OF link_if_merge_ok [OF k]])
  with m show "\<exists>r g'. create_patient ts g data = Inr (r, g')"
    by (simp add: create_patient_def bind_err_def dict_index_def assms(2))
qed

lemma upsert_step:
  assumes "map_of e ''type'' = Some (JStr t)"
    and "py_lower t \<in> {''hospital'', ''doctor'', ''patient''}"
    and "create_healthcare_entity ts u g e = Inr (r, g')"
  shows "\<exists>i kvs tx1. map_of e ''id'' = Some i \<and> merge_node (entity_type r) i kvs g = Inr tx1
           \<and> nodes g' = nodes tx1 \<and> ''id'' \<notin> fst ` set kvs \<and> distinct (map fst kvs)
           \<and> kvs = (if py_lower t = ''hospital'' then hospital_params ts e
                     else if py_lower t = ''doctor'' then doctor_params ts e
                     else patient_params ts e)
           \<and> entity_type r = (if py_lower t = ''hospital'' then ''Hospital''
                               else if py_lower t = ''doctor'' then ''Doctor'' else ''Patient'')"
proof -
  consider "py_lower t = ''hospital''" | "py_lower t = ''doctor''" | "py_lower t = ''patient''"
    using assms(2) by auto
  then show ?thesis
  proof cases
    case 1
    with assms(3) have "create_hospital ts g e = Inr (r, g')"
      by (simp add: route_kind [OF assms(1)])
    from create_hospital_result [OF this] 1 show ?thesis
      by (auto simp: params_keys)
  next
    case 2
    with assms(3) have "create_doctor ts g e = Inr (r, g')"
      by (simp add: route_kind [OF assms(1)])
    from create_doctor_result [OF this] 2 show ?thesis
      by (auto simp: params_keys)
  next
    case 3
    with assms(3) have "create_patient ts g e = Inr (r, g')"
      by (simp add: route_kind [OF assms(1)])
    from create_patient_result [OF this] 3 show ?thesis
      by (auto simp: params_keys)
  qed
qed

lemma upsert_ok:
  assumes "map_of e ''type'' = Some (JStr t)"
    and "py_lower t \<in> {''hospital'', ''doctor'', ''patient''}"
    and "map_of e ''id'' = Some i"
    and "list_all (\<lambda>kv. is_prim (snd kv)) e"
  shows "\<exists>r g'. create_healthcare_entity ts u g e = Inr (r, g')"
proof -
  consider "py_lower t = ''hospital''" | "py_lower t = ''doctor''" | "py_lower t = ''patient''"
    using assms(2) by auto
  then show ?thesis
  proof cases
    case 1
    with create_reference_ok(1) [OF assms(4,3), of ts g] show ?thesis
      by (simp add: route_kind [OF assms(1)])
  next
    case 2
    with create_reference_ok(2) [OF assms(4,3), of ts g] show ?thesis
      by (simp add: route_kind [OF assms(1)])
  next
    case 3
    with create_reference_ok(3) [OF assms(4,3), of ts g] show ?thesis
      by (simp add: route_kind [OF assms(1)])
  qed
qed

lemma written_field:
  assumes "\<forall>kv \<in> set kvs. p (fst kv) = (if snd kv = JNull then None else Some (snd kv))"
    and "(k, dict_get e k d) \<in> set kvs" and "d \<noteq> JNull"
  shows "p k = (case map_of e k of None \<Rightarrow> Some d
                | Some v \<Rightarrow> if v = JNull then None else Some v)"
proof -
  from assms(1,2) have "p k = (if dict_get e k d = JNull then None else Some (dict_get e k d))"
    by force
  thus ?thesis using assms(3) by (simp add: dict_get_def split: option.splits)
qed

text \<open>
  C7. For hospital, doctor and patient envelopes: take a graph with at most one node of the
  kind's label for an id, and ingest two envelopes of that kind with that id. Envelopes whose
  fields are all JSON scalars are always ingested. After the two ingestions exactly one node
  of the kind's label (\<open>Hospital\<close>, \<open>Doctor\<close>, \<open>Patient\<close>) matches the id, and each field that
  the kind writes holds what the second envelope has for it: the envelope's value, the
  default (\<open>''\<close>, \<open>0\<close> or \<open>False\<close>) where the envelope lacks the field, and no property where
  the envelope has \<^verbatim>\<open>null\<close>; \<open>updated_at\<close> holds the time of the second ingestion. The second
  ingestion adds no node and changes no label, and with the same envelope and the same
  timestamp it leaves the node list as it was.
\<close>

theorem reference_entities_upsert:
  assumes "map_of e1 ''type'' = Some (JStr t1)" and "map_of e2 ''type'' = Some (JStr t2)"
    and "py_lower t1 = py_lower t2"
    and "py_lower t1 \<in> {''hospital'', ''doctor'', ''patient''}"
    and "map_of e1 ''id'' = Some i" and "map_of e2 ''id'' = Some i"
    and "length (match_nodes g (if py_lower t1 = ''hospital'' then ''Hospital''
                      else if py_lower t1 = ''doctor'' then ''Doctor'' else ''Patient'') i) \<le> 1"
  shows "(list_all (\<lambda>kv. is_prim (snd kv)) e1 \<and> list_all (\<lambda>kv. is_prim (snd kv)) e2 \<longrightarrow>
            (\<exists>r1 g1 r2 g2. create_healthcare_entity ts1 u1 g e1 = Inr (r1, g1)
                          \<and> create_healthcare_entity ts2 u2 g1 e2 = Inr (r2, g2)))
       \<and> (create_healthcare_entity ts1 u1 g e1 = Inr (r1', g1')
            \<and> create_healthcare_entity ts2 u2 g1' e2 = Inr (r2', g2') \<longrightarrow>
            entity_type r2' = (if py_lower t2 = ''hospital'' then ''Hospital''
                               else if py_lower t2 = ''doctor'' then ''Doctor'' else ''Patient'')
            \<and> (\<exists>n. match_nodes g2' (entity_type r2') i = [n] \<and> n < length (nodes g2')
                \<and> nlabel (nodes g2' ! n) = entity_type r2'
                \<and> nprops (nodes g2' ! n) ''updated_at'' = Some (JStr ts2)
                \<and> (py_lower t2 = ''hospital'' \<longrightarrow>
                     (\<forall>kd \<in> set [(''name'', JStr []), (''location'', JStr []), (''hospital_type'', JStr []),
                        (''bed_count'', JInt 0), (''trauma_center'', JBool False),
                        (''teaching_hospital'', JBool False)].
                         nprops (nodes g2' ! n) (fst kd)
                           = (case map_of e2 (fst kd) of None \<Rightarrow> Some (snd kd)
                              | Some v \<Rightarrow> if v = JNull then None else Some v)))
                \<and> (py_lower t2 = ''doctor'' \<longrightarrow>
                     (\<forall>kd \<in> set [(''name'', JStr []), (''specialty'', JStr []), (''license_number'', JStr []),
                        (''years_experience'', JInt 0)].
                         nprops (nodes g2' ! n) (fst kd)
                           = (case map_of e2 (fst kd) of None \<Rightarrow> Some (snd kd)
                              | Some v \<Rightarrow> if v = JNull then None else Some v)))
                \<and> (py_lower t2 = ''patient'' \<longrightarrow>
                     (\<forall>kd \<in> set [(''name'', JStr []), (''mrn'', JStr []), (''date_of_birth'', JStr []),
                        (''age'', JInt 0), (''gender'', JStr []), (''phone'', JStr []),
                        (''email'', JStr [])].
                         nprops (nodes g2' ! n) (fst kd)
                           = (case map_of e2 (fst kd) of None \<Rightarrow> Some (snd kd)
                              | Some v \<Rightarrow> if v = JNull then None else Some v))))
            \<and> length (nodes g2') = length (nodes g1')
            \<and> map nlabel (nodes g2') = map nlabel (nodes g1')
            \<and> (e2 = e1 \<and> ts2 = ts1 \<longrightarrow> nodes g2' = nodes g1'))"
proof (intro conjI impI)
  assume f: "list_all (\<lambda>kv. is_prim (snd kv)) e1 \<and> list_all (\<lambda>kv. is_prim (snd kv)) e2"
  from upsert_ok [OF assms(1,4,5), of ts1 u1 g] f obtain r1 g1
    where a: "create_healthcare_entity ts1 u1 g e1 = Inr (r1, g1)" by blast
  from assms(3,4) have k2: "py_lower t2 \<in> {''hospital'', ''doctor'', ''patient''}" by simp
  from upsert_ok [OF assms(2) k2 assms(6), of ts2 u2 g1] f obtain r2 g2
    where b: "create_healthcare_entity ts2 u2 g1 e2 = Inr (r2, g2)" by blast
  from a b show "\<exists>r1 g1 r2 g2. create_healthcare_entity ts1 u1 g e1 = Inr (r1, g1)
                          \<and> create_healthcare_entity ts2 u2 g1 e2 = Inr (r2, g2)"
    by blast
next
  assume s: "create_healthcare_entity ts1 u1 g e1 = Inr (r1', g1')
            \<and> create_healthcare_entity ts2 u2 g1' e2 = Inr (r2', g2')"
  from assms(3,4) have k2: "py_lower t2 \<in> {''hospital'', ''doctor'', ''patient''}" by simp
  let ?kvs1 = "if py_lower t1 = ''hospital'' then hospital_params ts1 e1
               else if py_lower t1 = ''doctor'' then doctor_params ts1 e1
               else patient_params ts1 e1"
  let ?kvs2 = "if py_lower t2 = ''hospital'' then hospital_params ts2 e2
               else if py_lower t2 = ''doctor'' then doctor_params ts2 e2
               else patient_params ts2 e2"
  let ?l = "entity_type r2'"
  from upsert_step [OF assms(1,4)] s assms(5) obtain tx1 where
    m1: "merge_node (entity_type r1') i ?kvs1 g = Inr tx1" and n1: "nodes g1' = nodes tx1"
    and key1: "''id'' \<notin> fst ` set ?kvs1" "distinct (map fst ?kvs1)"
    and l1: "entity_type r1' = (if py_lower t1 = ''hospital'' then ''Hospital''
                               else if py_lower t1 = ''doctor'' then ''Doctor'' else ''Patient'')"
    by fastforce
  from upsert_step [OF assms(2) k2] s assms(6) obtain tx2 where
    m2: "merge_node ?l i ?kvs2 g1' = Inr tx2" and n2: "nodes g2' = nodes tx2"
    and key2: "''id'' \<notin> fst ` set ?kvs2" "distinct (map fst ?kvs2)"
    and l2: "entity_type r2' = (if py_lower t2 = ''hospital'' then ''Hospital''
                               else if py_lower t2 = ''doctor'' then ''Doctor'' else ''Patient'')"
    by fastforce
  from l2 show "entity_type r2' = (if py_lower t2 = ''hospital'' then ''Hospital''
                               else if py_lower t2 = ''doctor'' then ''Doctor'' else ''Patient'')" .
  from l1 l2 assms(3) have ll: "entity_type r1' = ?l" by simp
  have c0: "length (filter (node_has ?l i) (nodes g)) \<le> 1"
    using assms(7) l1 ll by (simp add: match_nodes_length)
  have c1: "length (filter (node_has ?l i) (nodes g1')) = 1"
    using merge_node_count [OF m1 key1(1)] c0 by (simp add: n1 ll max_def)
  have ex1: "list_ex (node_has ?l i) (nodes g1')"
    using merge_node_exists [OF m1 key1(1)] by (simp add: n1 ll)
  have c2: "length (match_nodes g2' ?l i) = 1"
    using merge_node_count [OF m2 key2(1)] c1 by (simp add: n2 match_nodes_length)
  then obtain n where n: "match_nodes g2' ?l i = [n]"
    by (cases "match_nodes g2' ?l i") auto
  then have "n \<in> set (match_nodes g2' ?l i)" by simp
  then have nn: "n < length (nodes g2')" "node_has ?l i (nodes g2' ! n)"
    by (simp_all add: match_nodes_set)
  then have "nodes g2' ! n \<in> set (nodes tx2)" by (simp add: n2)
  with merge_node_props [OF m2 key2] nn(2) have
    p: "\<forall>kv \<in> set ?kvs2. nprops (nodes g2' ! n) (fst kv)
                           = (if snd kv = JNull then None else Some (snd kv))"
    by blast
  from nn(2) have lab: "nlabel (nodes g2' ! n) = ?l" by (simp add: node_has_def)
  have "(''updated_at'', JStr ts2) \<in> set ?kvs2"
    by (simp add: hospital_params_def doctor_params_def patient_params_def)
  with p have upd: "nprops (nodes g2' ! n) ''updated_at'' = Some (JStr ts2)"
    by force
  have hosp: "\<forall>kd \<in> set [(''name'', JStr []), (''location'', JStr []), (''hospital_type'', JStr []),
                        (''bed_count'', JInt 0), (''trauma_center'', JBool False),
                        (''teaching_hospital'', JBool False)].
                 nprops (nodes g2' ! n) (fst kd)
                           = (case map_of e2 (fst kd) of None \<Rightarrow> Some (snd kd)
                              | Some v \<Rightarrow> if v = JNull then None else Some v)"
    if "py_lower t2 = ''hospital''"
  proof -
    from p that have q: "\<forall>kv \<in> set (hospital_params ts2 e2). nprops (nodes g2' ! n) (fst kv)
                           = (if snd kv = JNull then None else Some (snd kv))"
      by simp
    show ?thesis
      by (simp add: written_field [OF q] hospital_params_def split: option.splits)
  qed
  have doct: "\<forall>kd \<in> set [(''name'', JStr []), (''specialty'', JStr []), (''license_number'', JStr []),
                        (''years_experience'', JInt 0)].
                 nprops (nodes g2' ! n) (fst kd)
                           = (case map_of e2 (fst kd) of None \<Rightarrow> Some (snd kd)
                              | Some v \<Rightarrow> if v = JNull then None else Some v)"
    if "py_lower t2 = ''doctor''"
  proof -
    from p that have q: "\<forall>kv \<in> set (doctor_params ts2 e2). nprops (nodes g2' ! n) (fst kv)
                           = (if snd kv = JNull then None else Some (snd kv))"
      by simp
    show ?thesis
      by (simp add: written_field [OF q] doctor_params_def split: option.splits)
  qed
  have pati: "\<forall>kd \<in> set [(''name'', JStr []), (''mrn'', JStr []), (''date_of_birth'', JStr []),
                        (''age'', JInt 0), (''gender'', JStr []), (''phone'', JStr []),
                        (''email'', JStr [])].
                 nprops (nodes g2' ! n) (fst kd)
                           = (case map_of e2 (fst kd) of None \<Rightarrow> Some (snd kd)
                              | Some v \<Rightarrow> if v = JNull then None else Some v)"
    if "py_lower t2 = ''patient''"
  proof -
    from p that have q: "\<forall>kv \<in> set (patient_params ts2 e2). nprops (nodes g2' ! n) (fst kv)
                           = (if snd kv = JNull then None else Some (snd kv))"
      by simp
    show ?thesis
      by (simp add: written_field [OF q] patient_params_def split: option.splits)
  qed
  from n nn(1) lab upd hosp doct pati show
    "(\<exists>n. match_nodes g2' (entity_type r2') i = [n] \<and> n < length (nodes g2')
                \<and> nlabel (nodes g2' ! n) = entity_type r2'
                \<and> nprops (nodes g2' ! n) ''updated_at'' = Some (JStr ts2)
                \<and> (py_lower t2 = ''hospital'' \<longrightarrow>
                     (\<forall>kd \<in> set [(''name'', JStr []), (''location'', JStr []), (''hospital_type'', JStr []),
                        (''bed_count'', JInt 0), (''trauma_center'', JBool False),
                        (''teaching_hospital'', JBool False)].
                         nprops (nodes g2' ! n) (fst kd)
                           = (case map_of e2 (fst kd) of None \<Rightarrow> Some (snd kd)
                              | Some v \<Rightarrow> if v = JNull then None else Some v)))
                \<and> (py_lower t2 = ''doctor'' \<longrightarrow>
                     (\<forall>kd \<in> set [(''name'', JStr []), (''specialty'', JStr []), (''license_number'', JStr []),
                        (''years_experience'', JInt 0)].
                         nprops (nodes g2' ! n) (fst kd)
                           = (case map_of e2 (fst kd) of None \<Rightarrow> Some (snd kd)
                              | Some v \<Rightarrow> if v = JNull then None else Some v)))
                \<and> (py_lower t2 = ''patient'' \<longrightarrow>
                     (\<forall>kd \<in> set [(''name'', JStr []), (''mrn'', JStr []), (''date_of_birth'', JStr []),
                        (''age'', JInt 0), (''gender'', JStr []), (''phone'', JStr []),
                        (''email'', JStr [])].
                         nprops (nodes g2' ! n) (fst kd)
                           = (case map_of e2 (fst kd) of None \<Rightarrow> Some (snd kd)
                              | Some v \<Rightarrow> if v = JNull then None else Some v))))"
    by blast
  from merge_node_shape [OF m2 ex1] show "length (nodes g2') = length (nodes g1')"
    by (simp add: n2)
  from merge_node_shape [OF m2 ex1] show "map nlabel (nodes g2') = map nlabel (nodes g1')"
    by (simp add: n2)
  show "nodes g2' = nodes g1'" if same: "e2 = e1 \<and> ts2 = ts1"
  proof -
    from same assms(3) have kv: "?kvs2 = ?kvs1"
      using assms(1,2) by auto
    from merge_node_props [OF m1 key1] have
      "\<forall>n \<in> set (nodes g1'). node_has ?l i n \<longrightarrow>
         (\<forall>kv \<in> set ?kvs1. nprops n (fst kv) = (if snd kv = JNull then None else Some (snd kv)))"
      by (simp add: n1 ll)
    with merge_node_again [OF m2 key2(2) ex1] kv show ?thesis
      by (simp add: n2)
  qed
qed

lemma py_lower_Hospital: "py_lower ''Hospital'' = ''hospital''"
  by code_simp

theorem reference_entities_upsert_witness:
  "map_of hospital_h1 ''type'' = Some (JStr ''hospital'')
   \<and> map_of hospital_h1_renamed ''type'' = Some (JStr ''Hospital'')
   \<and> py_lower ''hospital'' = py_lower ''Hospital''
   \<and> py_lower ''hospital'' \<in> {''hospital'', ''doctor'', ''patient''}
   \<and> map_of hospital_h1 ''id'' = Some (JStr ''h1'')
   \<and> map_of hospital_h1_renamed ''id'' = Some (JStr ''h1'')
   \<and> length (match_nodes empty_graph ''Hospital'' (JStr ''h1'')) \<le> 1
   \<and> list_all (\<lambda>kv. is_prim (snd kv)) hospital_h1
   \<and> list_all (\<lambda>kv. is_prim (snd kv)) hospital_h1_renamed
   \<and> (\<exists>r1 g1 r2 g2.
         create_healthcare_entity ''t1'' ''u1'' empty_graph hospital_h1 = Inr (r1, g1)
         \<and> create_healthcare_entity ''t2'' ''u2'' g1 hospital_h1_renamed = Inr (r2, g2)
         \<and> nodes g1 = [hospital_h1_node]
         \<and> (\<exists>n. match_nodes g2 ''Hospital'' (JStr ''h1'') = [n]
                \<and> nlabel (nodes g2 ! n) = ''Hospital''
                \<and> nprops (nodes g2 ! n) ''name'' = Some (JStr ''Renamed'')
                \<and> nprops (nodes g2 ! n) ''bed_count'' = Some (JInt 10)
                \<and> nprops (nodes g2 ! n) ''location'' = Some (JStr [])
                \<and> nprops (nodes g2 ! n) ''updated_at'' = Some (JStr ''t2''))
         \<and> length (nodes g2) = 1)"
proof -
  have h: "map_of hospital_h1 ''type'' = Some (JStr ''hospital'')"
      "map_of hospital_h1_renamed ''type'' = Some (JStr ''Hospital'')"
      "py_lower ''hospital'' = py_lower ''Hospital''"
      "py_lower ''hospital'' \<in> {''hospital'', ''doctor'', ''patient''}"
      "map_of hospital_h1 ''id'' = Some (JStr ''h1'')"
      "map_of hospital_h1_renamed ''id'' = Some (JStr ''h1'')"
      "length (match_nodes empty_graph
                 (if py_lower ''hospital'' = ''hospital'' then ''Hospital''
                  else if py_lower ''hospital'' = ''doctor'' then ''Doctor'' else ''Patient'')
                 (JStr ''h1'')) \<le> 1"
    by (simp_all add: hospital_h1_def hospital_h1_renamed_def py_lower_kinds py_lower_Hospital
          match_nodes_def empty_graph_def)
  have h7: "length (match_nodes empty_graph ''Hospital'' (JStr ''h1'')) \<le> 1"
    by (simp add: match_nodes_def empty_graph_def)
  have f: "list_all (\<lambda>kv. is_prim (snd kv)) hospital_h1"
      "list_all (\<lambda>kv. is_prim (snd kv)) hospital_h1_renamed"
    by (simp_all add: hospital_h1_def hospital_h1_renamed_def)
  note t = reference_entities_upsert [OF h, of "''t1''" "''u1''" "''t2''" "''u2''"]
  from t f obtain r1 g1 r2 g2 where
    s: "create_healthcare_entity ''t1'' ''u1'' empty_graph hospital_h1 = Inr (r1, g1)"
       "create_healthcare_entity ''t2'' ''u2'' g1 hospital_h1_renamed = Inr (r2, g2)"
    by blast
  from s(1) create_hospital_h1 have g1: "nodes g1 = [hospital_h1_node]" by auto
  have m: "map_of hospital_h1_renamed ''name'' = Some (JStr ''Renamed'')"
      "map_of hospital_h1_renamed ''bed_count'' = Some (JInt 10)"
      "map_of hospital_h1_renamed ''location'' = None"
    by (simp_all add: hospital_h1_renamed_def)
  from t [of r1 g1 r2 g2] s obtain n where
    r2: "entity_type r2 = ''Hospital''"
    and n: "match_nodes g2 (entity_type r2) (JStr ''h1'') = [n]"
       "nlabel (nodes g2 ! n) = entity_type r2"
       "nprops (nodes g2 ! n) ''updated_at'' = Some (JStr ''t2'')"
       "\<forall>kd \<in> set [(''name'', JStr []), (''location'', JStr []), (''hospital_type'', JStr []),
                        (''bed_count'', JInt 0), (''trauma_center'', JBool False),
                        (''teaching_hospital'', JBool False)].
           nprops (nodes g2 ! n) (fst kd)
             = (case map_of hospital_h1_renamed (fst kd) of None \<Rightarrow> Some (snd kd)
                | Some v \<Rightarrow> if v = JNull then None else Some v)"
    and len: "length (nodes g2) = length (nodes g1)"
    by (auto simp: py_lower_Hospital)
  from n(4) m have
    "nprops (nodes g2 ! n) ''name'' = Some (JStr ''Renamed'')"
    "nprops (nodes g2 ! n) ''bed_count'' = Some (JInt 10)"
    "nprops (nodes g2 ! n) ''location'' = Some (JStr [])"
    by simp_all
  with n(1,2,3) r2 len g1 s h(1-6) h7 f show ?thesis by auto
qed

end
